theory Spec2Isabelle
  imports Main
begin

section \<open>Values of the Python runtime\<close>

text \<open>
  The exceptions the code distinguishes. \<open>HTTPError\<close> is
  \<^verbatim>\<open>requests.exceptions.HTTPError\<close> with the status code of its response and its
  text; \<open>RequestException\<close> is any other \<^verbatim>\<open>requests.exceptions.RequestException\<close>
  (connection refused, timeout); \<open>Exception\<close> is any other subclass of Python's
  \<^verbatim>\<open>Exception\<close>. Exceptions outside \<^verbatim>\<open>Exception\<close> (KeyboardInterrupt, SystemExit)
  are not modelled: no handler of the code catches them.
\<close>

datatype exc =
    HTTPError nat string
  | RequestException string
  | ValueError string
  | TypeError string
  | Exception string

fun str_exc :: "exc \<Rightarrow> string" where
  "str_exc (HTTPError code m) = m"
| "str_exc (RequestException m) = m"
| "str_exc (ValueError m) = m"
| "str_exc (TypeError m) = m"
| "str_exc (Exception m) = m"

text \<open>Truth value of an optional string: \<^verbatim>\<open>None\<close> and \<^verbatim>\<open>''\<close> are false.\<close>

definition truthy :: "string option \<Rightarrow> bool" where
  "truthy v = (case v of None \<Rightarrow> False | Some s \<Rightarrow> s \<noteq> [])"

text \<open>An f-string field: \<^verbatim>\<open>f'{v}'\<close> prints \<^verbatim>\<open>None\<close> as the word.\<close>

definition fmt :: "string option \<Rightarrow> string" where
  "fmt v = (case v of None \<Rightarrow> ''None'' | Some s \<Rightarrow> s)"

definition startswith :: "string \<Rightarrow> string \<Rightarrow> bool" where
  "startswith s p = (take (length p) s = p)"

text \<open>
  An \<^verbatim>\<open>xml.etree.ElementTree\<close> element: tag, attributes, children.
  \<^verbatim>\<open>root.findall('.//T')\<close> is every element below the root with tag \<open>T\<close>, in
  document order.
\<close>

datatype element = Element (tag: string) (attrib: "(string \<times> string) list") (children: "element list")

fun iter_below :: "element \<Rightarrow> element list" where
  "iter_below (Element t a cs) = concat (map (\<lambda>c. c # iter_below c) cs)"

definition findall :: "string \<Rightarrow> element \<Rightarrow> element list" where
  "findall t root = filter (\<lambda>e. tag e = t) (iter_below root)"

definition elem_get :: "element \<Rightarrow> string \<Rightarrow> string option" where
  "elem_get e k = map_of (attrib e) k"

definition elem_get_default :: "element \<Rightarrow> string \<Rightarrow> string \<Rightarrow> string" where
  "elem_get_default e k d = (case elem_get e k of None \<Rightarrow> d | Some v \<Rightarrow> v)"

text \<open>
  Everything the program reads from outside itself. The process environment; the zone
  names \<^verbatim>\<open>pytz.timezone\<close> accepts (any other raises); Python's \<^verbatim>\<open>int()\<close> on a string
  and \<^verbatim>\<open>datetime.fromtimestamp\<close>, which return or raise; the clock, in microseconds
  since the epoch; and the remote server: what a GET or a PUT of an endpoint (the
  argument of \<^verbatim>\<open>urljoin(self.plex_url, _)\<close>) gives after \<^verbatim>\<open>raise_for_status()\<close> and
  \<^verbatim>\<open>ET.fromstring\<close>, a parsed document or the exception raised. The value
  \<open>fromtimestamp\<close> returns is the naive local date and time as a number that orders as
  it does. The clock has one reading for the whole of a scan. \<open>configs_error\<close> is
  the exception, if any, that the query for the enabled library configurations raises.
\<close>

record world =
  environ :: "string \<Rightarrow> string option"
  known_zone :: "string \<Rightarrow> bool"
  py_int :: "string \<Rightarrow> exc + int"
  fromtimestamp :: "int \<Rightarrow> exc + int"
  now_us :: int
  http_get :: "string \<Rightarrow> exc + element"
  http_put :: "string \<Rightarrow> (string \<times> string) list \<Rightarrow> exc + unit"
  configs_error :: "exc option"

definition getenv :: "world \<Rightarrow> string \<Rightarrow> string \<Rightarrow> string" where
  "getenv w name d = (case environ w name of None \<Rightarrow> d | Some v \<Rightarrow> v)"

subsection \<open>config.py\<close>

definition TZ :: "world \<Rightarrow> string" where
  "TZ w = (let tz_name = getenv w ''TZ'' ''UTC''
           in if known_zone w tz_name then tz_name else ''UTC'')"

section \<open>plex\_client.py\<close>

record server_info_dict =
  friendlyName :: string
  version :: string
  platform :: string

record plex_client =
  plex_url :: string
  plex_token :: string
  server_info :: "server_info_dict option"
  server_timezone :: "string option"

definition PlexClient :: "world \<Rightarrow> plex_client" where
  "PlexClient w =
     \<lparr>plex_url = getenv w ''PLEX_URL'' ''http://localhost:32400'',
      plex_token = getenv w ''PLEX_TOKEN'' '''',
      server_info = None,
      server_timezone = None\<rparr>"

definition make_request :: "world \<Rightarrow> plex_client \<Rightarrow> string \<Rightarrow> exc + element" where
  "make_request w c endpoint =
     (if plex_token c = [] then Inl (Exception ''PLEX_TOKEN environment variable is required'')
      else http_get w endpoint)"

subsection \<open>connect\<close>

definition timezone_pref :: "element \<Rightarrow> string option" where
  "timezone_pref prefs_root =
     (case filter (\<lambda>setting. elem_get setting ''id'' = Some ''TimezoneName'')
             (findall ''Setting'' prefs_root) of
        [] \<Rightarrow> None
      | setting # _ \<Rightarrow> elem_get setting ''value'')"

definition connect_timezone :: "world \<Rightarrow> plex_client \<Rightarrow> string" where
  "connect_timezone w c =
     (case make_request w c ''/:/prefs'' of
        Inl e \<Rightarrow> TZ w
      | Inr prefs_root \<Rightarrow>
          (case timezone_pref prefs_root of
             None \<Rightarrow> TZ w
           | Some pref \<Rightarrow>
               if pref = [] then TZ w
               else if known_zone w pref then pref
               else TZ w))"

definition connect :: "world \<Rightarrow> plex_client \<Rightarrow> bool \<times> plex_client" where
  "connect w c =
     (case make_request w c ''/'' of
        Inl e \<Rightarrow> (False, c)
      | Inr root \<Rightarrow>
          (let c1 = c\<lparr>server_info := Some
                        \<lparr>friendlyName = elem_get_default root ''friendlyName'' ''Unknown'',
                         version = elem_get_default root ''version'' ''Unknown'',
                         platform = elem_get_default root ''platform'' ''Unknown''\<rparr>\<rparr>
           in (True, c1\<lparr>server_timezone := Some (connect_timezone w c1)\<rparr>)))"

text \<open>The guard that opens every other method: connect unless already connected.\<close>

definition ensure_connected :: "world \<Rightarrow> plex_client \<Rightarrow> bool \<times> plex_client" where
  "ensure_connected w c = (if server_info c = None then connect w c else (True, c))"

subsection \<open>get\_recent\_media\<close>

record media_info =
  mi_key :: "string option"
  mi_title :: "string option"
  mi_type :: "string option"
  mi_addedAt :: int
  mi_addedAt_server :: "int \<times> string"
  mi_year :: "string option"
  mi_summary :: string

text \<open>
  \<^verbatim>\<open>int(cutoff_time.timestamp())\<close>: the instant \<open>hours\<close> before now, as a number of
  seconds since the epoch. The zone in which now is read does not change the instant.
  \<^verbatim>\<open>timestamp()\<close> of an aware datetime is its distance from the epoch in microseconds
  divided by \<^verbatim>\<open>10**6\<close> as Python divides two integers, which gives the double nearest
  to the quotient (a mantissa of 53 bits, a tie going to the even one); \<^verbatim>\<open>int()\<close> then
  cuts the double towards zero.
\<close>

definition round_half_even :: "nat \<Rightarrow> nat \<Rightarrow> nat" where
  "round_half_even n d =
     (let q = n div d; r = n mod d
      in if 2 * r < d then q else if d < 2 * r then q + 1 else if even q then q else q + 1)"

fun bit_length :: "nat \<Rightarrow> nat" where
  "bit_length n = (if n = 0 then 0 else Suc (bit_length (n div 2)))"

declare bit_length.simps [simp del]

text \<open>
  \<^verbatim>\<open>int(us / 10**6)\<close> for \<open>us\<close> not negative. With \<open>k\<close> the exponent of the quotient,
  the mantissa is the quotient scaled by \<open>2 ^ (52 - k)\<close> and rounded.
\<close>

definition whole_seconds :: "nat \<Rightarrow> nat" where
  "whole_seconds us =
     (if us < 1000000 then 0
      else
        (let k = bit_length (us div 1000000) - 1
         in if k \<le> 52 then round_half_even (us * 2 ^ (52 - k)) 1000000 div 2 ^ (52 - k)
            else round_half_even us (1000000 * 2 ^ (k - 52)) * 2 ^ (k - 52)))"

definition timestamp_int :: "int \<Rightarrow> int" where
  "timestamp_int us =
     (if 0 \<le> us then int (whole_seconds (nat us)) else - int (whole_seconds (nat (- us))))"

definition cutoff_timestamp :: "world \<Rightarrow> int \<Rightarrow> int" where
  "cutoff_timestamp w hours = timestamp_int (now_us w - hours * 3600 * 1000000)"

text \<open>
  \<^verbatim>\<open>len(summary)\<close> and \<^verbatim>\<open>summary[:200]\<close> count characters. A string is here the bytes
  of its UTF-8 encoding, in which every character is one byte that is not a continuation
  byte, followed by its continuation bytes.
\<close>

definition is_continuation :: "char \<Rightarrow> bool" where
  "is_continuation ch = (128 \<le> (of_char ch :: nat) \<and> (of_char ch :: nat) < 192)"

definition py_len :: "string \<Rightarrow> nat" where
  "py_len s = length (filter (\<lambda>ch. \<not> is_continuation ch) s)"

fun take_chars :: "nat \<Rightarrow> string \<Rightarrow> string" where
  "take_chars n [] = []"
| "take_chars n (ch # cs) =
     (if is_continuation ch then ch # take_chars n cs
      else (case n of 0 \<Rightarrow> [] | Suc m \<Rightarrow> ch # take_chars m cs))"

definition truncate_summary :: "string \<Rightarrow> string" where
  "truncate_summary summary =
     (if summary \<noteq> [] \<and> py_len summary > 200 then take_chars 200 summary @ ''...'' else summary)"

text \<open>The body of the inner \<^verbatim>\<open>try\<close>, for one item whose \<open>addedAt\<close> is present.\<close>

definition media_of_item ::
  "world \<Rightarrow> plex_client \<Rightarrow> int \<Rightarrow> element \<Rightarrow> string \<Rightarrow> exc + media_info option" where
  "media_of_item w c cutoff item added_at_str =
     (case py_int w added_at_str of
        Inl e \<Rightarrow> Inl e
      | Inr added_at_timestamp \<Rightarrow>
          (case fromtimestamp w added_at_timestamp of
             Inl e \<Rightarrow> Inl e
           | Inr added_at_dt \<Rightarrow>
               if added_at_timestamp \<ge> cutoff then
                 (case server_timezone c of
                    None \<Rightarrow> Inl (Exception ''AttributeError'')
                  | Some zone \<Rightarrow>
                      Inr (Some
                        \<lparr>mi_key = elem_get item ''key'',
                         mi_title = elem_get item ''title'',
                         mi_type = elem_get item ''type'',
                         mi_addedAt = added_at_dt,
                         mi_addedAt_server = (added_at_dt, zone),
                         mi_year = elem_get item ''year'',
                         mi_summary = truncate_summary (elem_get_default item ''summary'' '''')\<rparr>))
               else Inr None))"

definition caught_by_item_handler :: "exc \<Rightarrow> bool" where
  "caught_by_item_handler e = (case e of ValueError m \<Rightarrow> True | TypeError m \<Rightarrow> True | _ \<Rightarrow> False)"

text \<open>
  One turn of the loop over the items: what it appends to the list, if anything, or the
  exception that leaves the loop. An item without \<open>addedAt\<close> is passed over; so is
  one on which the inner \<^verbatim>\<open>try\<close> raises \<^verbatim>\<open>ValueError\<close> or \<^verbatim>\<open>TypeError\<close>.
\<close>

definition recent_item ::
  "world \<Rightarrow> plex_client \<Rightarrow> int \<Rightarrow> element \<Rightarrow> exc + media_info option" where
  "recent_item w c cutoff item =
     (case elem_get item ''addedAt'' of
        None \<Rightarrow> Inr None
      | Some added_at_str \<Rightarrow>
          if added_at_str = [] then Inr None
          else
            (case media_of_item w c cutoff item added_at_str of
               Inr r \<Rightarrow> Inr r
             | Inl e \<Rightarrow> if caught_by_item_handler e then Inr None else Inl e))"

fun recent_loop ::
  "world \<Rightarrow> plex_client \<Rightarrow> int \<Rightarrow> element list \<Rightarrow> media_info list \<Rightarrow> exc + media_info list" where
  "recent_loop w c cutoff [] recent_media = Inr recent_media"
| "recent_loop w c cutoff (item # items) recent_media =
     (case recent_item w c cutoff item of
        Inl e \<Rightarrow> Inl e
      | Inr None \<Rightarrow> recent_loop w c cutoff items recent_media
      | Inr (Some media_info) \<Rightarrow> recent_loop w c cutoff items (recent_media @ [media_info]))"

definition media_elements :: "element \<Rightarrow> element list" where
  "media_elements root = findall ''Video'' root @ findall ''Track'' root @ findall ''Photo'' root"

text \<open>The body of the outer \<^verbatim>\<open>try\<close>. The sort is stable and newest first.\<close>

definition recent_media_body ::
  "world \<Rightarrow> plex_client \<Rightarrow> string \<Rightarrow> int \<Rightarrow> exc + media_info list" where
  "recent_media_body w c library_key hours =
     (let cutoff = cutoff_timestamp w hours in
      case make_request w c (''/library/sections/'' @ library_key @ ''/all'') of
        Inl e \<Rightarrow> Inl e
      | Inr root \<Rightarrow>
          (case recent_loop w c cutoff (media_elements root) [] of
             Inl e \<Rightarrow> Inl e
           | Inr recent_media \<Rightarrow> Inr (sort_key (\<lambda>x. - mi_addedAt x) recent_media)))"

definition get_recent_media ::
  "world \<Rightarrow> plex_client \<Rightarrow> string \<Rightarrow> int \<Rightarrow> media_info list \<times> plex_client" where
  "get_recent_media w c0 library_key hours =
     (case ensure_connected w c0 of
        (False, c) \<Rightarrow> ([], c)
      | (True, c) \<Rightarrow>
          (case recent_media_body w c library_key hours of
             Inr recent_media \<Rightarrow> (recent_media, c)
           | Inl (HTTPError code m) \<Rightarrow> ([], c)
           | Inl e \<Rightarrow> ([], c)))"

subsection \<open>match\_with\_agent\<close>

definition is_guid_matched :: "string option \<Rightarrow> bool" where
  "is_guid_matched media_guid =
     (case media_guid of
        None \<Rightarrow> False
      | Some g \<Rightarrow>
          if g = [] then False
          else if startswith g ''plex://'' \<or> startswith g ''local://'' then False
          else True)"

text \<open>The arrow of the success message, as its three bytes in UTF-8.\<close>

definition arrow :: string where
  "arrow = [CHR 0xE2, CHR 0x86, CHR 0x92]"

text \<open>The loop with \<^verbatim>\<open>break\<close> that reads title and identifier of the item looked up.\<close>

definition lookup_media :: "element \<Rightarrow> string option \<Rightarrow> string \<times> string option" where
  "lookup_media media_root media_key =
     (case filter (\<lambda>item. elem_get item ''key'' = media_key) (media_elements media_root) of
        [] \<Rightarrow> (''Unknown'', None)
      | item # _ \<Rightarrow>
          (elem_get_default item ''title'' ''Unknown'', Some (elem_get_default item ''guid'' '''')))"

text \<open>The body of the inner \<^verbatim>\<open>try\<close> of the unmatched branch.\<close>

definition first_match_body ::
  "world \<Rightarrow> plex_client \<Rightarrow> string option \<Rightarrow> string \<Rightarrow> exc + (bool \<times> string)" where
  "first_match_body w c media_key media_title =
     (case make_request w c (fmt media_key @ ''/matches'') of
        Inl e \<Rightarrow> Inl e
      | Inr matches_root \<Rightarrow>
          (case findall ''SearchResult'' matches_root of
             [] \<Rightarrow> Inr (True, ''No matches available for: '' @ media_title)
           | first_match # _ \<Rightarrow>
               (let match_guid = elem_get first_match ''guid'';
                    match_name = elem_get_default first_match ''name'' ''Unknown''
                in if truthy match_guid then
                     (case http_put w (fmt media_key @ ''/match'') [(''guid'', fmt match_guid)] of
                        Inl e \<Rightarrow> Inl e
                      | Inr u \<Rightarrow>
                          Inr (True, ''Matched: '' @ media_title @ '' '' @ arrow @ '' '' @ match_name))
                   else Inr (True, ''Match found but no guid available for: '' @ media_title))))"

definition unmatched_branch ::
  "world \<Rightarrow> plex_client \<Rightarrow> string option \<Rightarrow> string \<Rightarrow> exc + (bool \<times> string)" where
  "unmatched_branch w c media_key media_title =
     (case first_match_body w c media_key media_title of
        Inr r \<Rightarrow> Inr r
      | Inl (HTTPError code m) \<Rightarrow>
          if code = 404 then Inr (True, ''No matches available for: '' @ media_title)
          else Inr (False, ''Error getting matches: '' @ m)
      | Inl e \<Rightarrow> Inl e)"

text \<open>The body of the outer \<^verbatim>\<open>try\<close>.\<close>

definition match_body ::
  "world \<Rightarrow> plex_client \<Rightarrow> string option \<Rightarrow> exc + (bool \<times> string)" where
  "match_body w c media_key =
     (case make_request w c (fmt media_key) of
        Inl e \<Rightarrow> Inl e
      | Inr media_root \<Rightarrow>
          (case lookup_media media_root media_key of
             (media_title, media_guid) \<Rightarrow>
               if is_guid_matched media_guid then
                 (case http_put w (fmt media_key @ ''/refresh'') [] of
                    Inl e \<Rightarrow> Inl e
                  | Inr u \<Rightarrow> Inr (True, ''Refreshed matched media: '' @ media_title))
               else unmatched_branch w c media_key media_title))"

definition match_with_agent ::
  "world \<Rightarrow> plex_client \<Rightarrow> string \<Rightarrow> string option \<Rightarrow> string \<Rightarrow> (bool \<times> string) \<times> plex_client" where
  "match_with_agent w c0 library_key media_key agent_name =
     (case ensure_connected w c0 of
        (False, c) \<Rightarrow> ((False, ''Not connected to Plex server''), c)
      | (True, c) \<Rightarrow>
          (case match_body w c media_key of
             Inr r \<Rightarrow> (r, c)
           | Inl (HTTPError code m) \<Rightarrow>
               if code = 404 then
                 ((False, ''Library '' @ library_key @ '' or media '' @ fmt media_key @ '' not found''), c)
               else ((False, ''HTTP error processing media '' @ fmt media_key @ '': '' @ m), c)
           | Inl e \<Rightarrow>
               ((False, ''Failed to process media '' @ fmt media_key @ '' with agent '' @ agent_name
                         @ '': '' @ str_exc e), c)))"

section \<open>models.py\<close>

text \<open>
  The rows of the three tables, with the columns the scan reads or writes (primary keys
  of media items and scan logs, and the creation stamps of a configuration, are the
  database's and play no part). A table is the list of its rows.
\<close>

record library_config =
  lc_id :: int
  library_key :: string
  library_name :: string
  library_type :: string
  agent_name :: string
  enabled :: bool

record media_item =
  library_config_id :: int
  plex_key :: "string option"
  title :: "string option"
  media_type :: "string option"
  added_at :: int
  processed_at :: int
  agent_matched :: "string option"
  match_successful :: bool
  item_error_message :: "string option"

record scan_log =
  scan_started_at :: int
  scan_completed_at :: "int option"
  total_libraries :: int
  total_media_found :: int
  total_matched :: int
  total_errors :: int
  status :: string
  error_message :: "string option"

record db =
  library_configs :: "library_config list"
  media_items :: "media_item list"
  scan_logs :: "scan_log list"

text \<open>
  The constraints of the table of media items. Key, title and type are declared
  \<^verbatim>\<open>nullable=False\<close> (the configuration and the date of a row the scan always sets),
  and \<^verbatim>\<open>UniqueConstraint('library_config_id', 'plex_key')\<close> lets the table hold a pair of
  configuration and key once. \<open>insert_rows\<close> is the INSERT of rows, one after the
  other: the table with the rows, or \<^verbatim>\<open>IntegrityError\<close> at the first row the table
  refuses. The declared lengths of the strings, which not every engine enforces, and
  failures of the engine itself are not modelled, but for the query of the configurations
  (\<open>configs_error\<close>).
\<close>

definition integrity_error :: exc where
  "integrity_error = Exception ''IntegrityError''"

definition pair_of :: "media_item \<Rightarrow> int \<times> string option" where
  "pair_of r = (library_config_id r, plex_key r)"

definition not_null :: "media_item \<Rightarrow> bool" where
  "not_null r = (plex_key r \<noteq> None \<and> title r \<noteq> None \<and> media_type r \<noteq> None)"

fun insert_rows :: "media_item list \<Rightarrow> media_item list \<Rightarrow> exc + media_item list" where
  "insert_rows rows [] = Inr rows"
| "insert_rows rows (r # rs) =
     (if not_null r \<and> pair_of r \<notin> set (map pair_of rows) then insert_rows (rows @ [r]) rs
      else Inl integrity_error)"

section \<open>The session\<close>

text \<open>
  \<^verbatim>\<open>db.session\<close>, the SQLAlchemy session through which a scan reads and writes the
  table of media items: the table as last committed, the rows the open transaction has
  inserted, the rows added to the session and not yet sent, and whether a flush has failed.
  \<^verbatim>\<open>add\<close> makes a row pending. A flush sends the pending rows; it runs before every
  query and in every commit. When the table refuses a row the flush raises, the
  transaction is rolled back, so that the rows it had inserted and the pending ones are
  gone, and the session stays inactive: until \<^verbatim>\<open>rollback()\<close> is called on it, whatever
  reaches the database through it raises \<^verbatim>\<open>PendingRollbackError\<close>. scheduler.py does not
  call \<^verbatim>\<open>rollback()\<close>. A query sees the committed rows and those the transaction has
  inserted; a commit keeps the latter.
\<close>

definition pending_rollback_error :: exc where
  "pending_rollback_error = Exception ''PendingRollbackError''"

record session =
  stored :: "media_item list"
  flushed :: "media_item list"
  pending :: "media_item list"
  inactive :: bool

definition begin_session :: "db \<Rightarrow> session" where
  "begin_session d = \<lparr>stored = media_items d, flushed = [], pending = [], inactive = False\<rparr>"

definition session_add :: "session \<Rightarrow> media_item \<Rightarrow> session" where
  "session_add ss r = ss\<lparr>pending := pending ss @ [r]\<rparr>"

definition flush :: "session \<Rightarrow> (exc + unit) \<times> session" where
  "flush ss =
     (if inactive ss then (Inl pending_rollback_error, ss)
      else
        (case insert_rows (stored ss @ flushed ss) (pending ss) of
           Inr inserted \<Rightarrow> (Inr (), ss\<lparr>flushed := flushed ss @ pending ss, pending := []\<rparr>)
         | Inl e \<Rightarrow> (Inl e, ss\<lparr>flushed := [], pending := [], inactive := True\<rparr>)))"

definition commit :: "session \<Rightarrow> (exc + unit) \<times> session" where
  "commit ss =
     (case flush ss of
        (Inl e, ss1) \<Rightarrow> (Inl e, ss1)
      | (Inr u, ss1) \<Rightarrow> (Inr (), ss1\<lparr>stored := stored ss1 @ flushed ss1, flushed := []\<rparr>))"

section \<open>scheduler.py\<close>

text \<open>
  \<^verbatim>\<open>MediaItem.query.filter_by(library_config_id=..., plex_key=...).first()\<close>: the first
  row with this pair, if there is one, among the rows the query sees.
\<close>

definition existing_item :: "media_item list \<Rightarrow> int \<Rightarrow> string option \<Rightarrow> media_item option" where
  "existing_item rows cid k = find (\<lambda>r. library_config_id r = cid \<and> plex_key r = k) rows"

definition query_existing ::
  "session \<Rightarrow> int \<Rightarrow> string option \<Rightarrow> (exc + media_item option) \<times> session" where
  "query_existing ss cid k =
     (case flush ss of
        (Inl e, ss1) \<Rightarrow> (Inl e, ss1)
      | (Inr u, ss1) \<Rightarrow> (Inr (existing_item (stored ss1 @ flushed ss1) cid k), ss1))"

text \<open>The local variables of the scan that the two loops update, and the session.\<close>

record scan_state =
  client :: plex_client
  session :: session
  found :: int
  matched :: int
  errors :: int

text \<open>
  One turn of the inner loop. The query is where the \<^verbatim>\<open>try\<close> can raise: it flushes
  the rows added in earlier turns, and it is refused by a session that a failed flush has
  left inactive; the handler then counts an error for the item at hand and the loop goes
  on. The call of the client and \<^verbatim>\<open>add\<close> do not raise.
\<close>

definition process_media :: "world \<Rightarrow> library_config \<Rightarrow> scan_state \<Rightarrow> media_info \<Rightarrow> scan_state" where
  "process_media w config s media =
     (case query_existing (session s) (lc_id config) (mi_key media) of
        (Inl e, ss) \<Rightarrow> s\<lparr>session := ss, errors := errors s + 1\<rparr>
      | (Inr (Some existing), ss) \<Rightarrow> s\<lparr>session := ss\<rparr>
      | (Inr None, ss) \<Rightarrow>
          (case match_with_agent w (client s) (library_key config) (mi_key media) (agent_name config) of
             ((success, message), c) \<Rightarrow>
               (let media_item =
                      \<lparr>library_config_id = lc_id config,
                       plex_key = mi_key media,
                       title = mi_title media,
                       media_type = mi_type media,
                       added_at = mi_addedAt media,
                       processed_at = now_us w,
                       agent_matched = Some (agent_name config),
                       match_successful = success,
                       item_error_message = (if success then None else Some message)\<rparr>
                in s\<lparr>client := c,
                     session := session_add ss media_item,
                     matched := (if success then matched s + 1 else matched s),
                     errors := (if success then errors s else errors s + 1)\<rparr>)))"

text \<open>
  One turn of the outer loop: the window is 24 hours. The rollback of a failed flush
  expires the rows of the configurations, so on an inactive session reading
  \<^verbatim>\<open>config.library_name\<close> raises; the handler of the library reads the name again for its
  message and raises in turn, before it has counted, and that exception leaves the loop.
  On an active session no statement of the \<^verbatim>\<open>try\<close> raises: the method that lists the
  recent items catches whatever the fetch raises and answers with the empty list, and the
  inner loop catches what its turns raise. So the handler that counts an error for the
  library never counts.
\<close>

definition scan_library :: "world \<Rightarrow> scan_state \<Rightarrow> library_config \<Rightarrow> exc + scan_state" where
  "scan_library w s config =
     (if inactive (session s) then Inl pending_rollback_error
      else
        (case get_recent_media w (client s) (library_key config) 24 of
           (recent_media, c) \<Rightarrow>
             Inr (foldl (process_media w config)
                    (s\<lparr>client := c, found := found s + int (length recent_media)\<rparr>) recent_media)))"

text \<open>The loop over the configurations: it ends, or an exception leaves it.\<close>

fun scan_configs :: "world \<Rightarrow> scan_state \<Rightarrow> library_config list \<Rightarrow> exc option \<times> scan_state" where
  "scan_configs w s [] = (None, s)"
| "scan_configs w s (config # configs) =
     (case scan_library w s config of
        Inl e \<Rightarrow> (Some e, s)
      | Inr s1 \<Rightarrow> scan_configs w s1 configs)"

definition new_scan_log :: "world \<Rightarrow> scan_log" where
  "new_scan_log w =
     \<lparr>scan_started_at = now_us w,
      scan_completed_at = None,
      total_libraries = 0,
      total_media_found = 0,
      total_matched = 0,
      total_errors = 0,
      status = ''running'',
      error_message = None\<rparr>"

text \<open>The first three statements: the record of the scan is created and committed.\<close>

definition scan_start :: "world \<Rightarrow> db \<Rightarrow> db" where
  "scan_start w d = d\<lparr>scan_logs := scan_logs d @ [new_scan_log w]\<rparr>"

text \<open>
  The body of the outer \<^verbatim>\<open>try\<close>: how it ends (it returns after a commit, or
  raises), the record of the scan as the body has set it, and the session. The commit of
  a failed connection and the final commit are the second and third commit of the routine.
\<close>

definition scan_try :: "world \<Rightarrow> db \<Rightarrow> scan_log \<Rightarrow> (exc + unit) \<times> scan_log \<times> session" where
  "scan_try w d scan_log =
     (case connect w (PlexClient w) of
        (False, c) \<Rightarrow>
          (case commit (begin_session d) of
             (r, ss) \<Rightarrow>
               (r,
                scan_log\<lparr>status := ''failed'',
                         error_message := Some ''Failed to connect to Plex server'',
                         scan_completed_at := Some (now_us w)\<rparr>,
                ss))
      | (True, c) \<Rightarrow>
          (case configs_error w of
             Some e \<Rightarrow> (Inl e, scan_log, begin_session d)
           | None \<Rightarrow>
               (let configs = filter enabled (library_configs d);
                    scan_log1 = scan_log\<lparr>total_libraries := int (length configs)\<rparr>
                in case scan_configs w
                          \<lparr>client = c, session = begin_session d, found = 0, matched = 0, errors = 0\<rparr>
                          configs of
                     (Some e, s) \<Rightarrow> (Inl e, scan_log1, session s)
                   | (None, s) \<Rightarrow>
                       (case commit (session s) of
                          (r, ss) \<Rightarrow>
                            (r,
                             scan_log1\<lparr>total_media_found := found s,
                                       total_matched := matched s,
                                       total_errors := errors s,
                                       status := ''completed'',
                                       scan_completed_at := Some (now_us w)\<rparr>,
                             ss)))))"

text \<open>
  The routine: the exception that leaves it, if one does, and the database it leaves.
  When the body returns, its commit has written the record and the rows. When the body
  raises, the handler sets the record to failed and commits; that commit writes the
  record, or it raises too, the exception leaves the routine, and the record is as the
  first commit wrote it.
\<close>

definition scan_libraries :: "world \<Rightarrow> db \<Rightarrow> exc option \<times> db" where
  "scan_libraries w d =
     (case scan_try w d (new_scan_log w) of
        (Inr u, scan_log, ss) \<Rightarrow>
          (None, d\<lparr>media_items := stored ss, scan_logs := scan_logs d @ [scan_log]\<rparr>)
      | (Inl e, scan_log, ss) \<Rightarrow>
          (case commit ss of
             (Inr u, ss1) \<Rightarrow>
               (None,
                d\<lparr>media_items := stored ss1,
                  scan_logs := scan_logs d @
                    [scan_log\<lparr>status := ''failed'',
                              error_message := Some (str_exc e),
                              scan_completed_at := Some (now_us w)\<rparr>]\<rparr>)
           | (Inl e1, ss1) \<Rightarrow> (Some e1, scan_start w d)))"

text \<open>The record of the scan just run: the last row of the table.\<close>

definition last_scan :: "db \<Rightarrow> scan_log" where
  "last_scan d = last (scan_logs d)"

section \<open>Notions for stating the properties\<close>

text \<open>
  The record of a scan that failed; the number of scans whose record is in status
  running, started and not finished.
\<close>

definition failed_scan_log :: "world \<Rightarrow> string \<Rightarrow> scan_log" where
  "failed_scan_log w text =
     (new_scan_log w)\<lparr>status := ''failed'', error_message := Some text,
                      scan_completed_at := Some (now_us w)\<rparr>"


section \<open>Example worlds\<close>

text \<open>
  A world for the examples: a token is configured, the only zone known is \<^verbatim>\<open>UTC\<close>,
  every PUT succeeds and the configurations can be read. The remote's answers to GET are
  the parameter.

  \<^verbatim>\<open>int()\<close> is read as CPython 3.11 reads a string of ASCII characters: white space
  around, a sign, and at most 4300 decimal digits with single underscores between them;
  any other string raises \<^verbatim>\<open>ValueError\<close> (the text of the exception, which the code
  only logs, is the string). No example has a string with a character outside ASCII.
\<close>

definition is_space :: "char \<Rightarrow> bool" where
  "is_space ch = (let n = (of_char ch :: nat) in (9 \<le> n \<and> n \<le> 13) \<or> n = 32)"

definition digit_of :: "char \<Rightarrow> nat option" where
  "digit_of ch = (let n = (of_char ch :: nat) in if 48 \<le> n \<and> n \<le> 57 then Some (n - 48) else None)"

fun decimal :: "string \<Rightarrow> nat \<Rightarrow> nat option" where
  "decimal [] acc = None"
| "decimal (ch # cs) acc =
     (case digit_of ch of
        None \<Rightarrow> None
      | Some d \<Rightarrow>
          (case cs of
             [] \<Rightarrow> Some (10 * acc + d)
           | c2 # cs2 \<Rightarrow>
               if c2 = CHR ''_'' then decimal cs2 (10 * acc + d) else decimal cs (10 * acc + d)))"

definition strip :: "string \<Rightarrow> string" where
  "strip s = dropWhile is_space (rev (dropWhile is_space (rev s)))"

definition int_of_string :: "string \<Rightarrow> exc + int" where
  "int_of_string s =
     (case strip s of
        [] \<Rightarrow> Inl (ValueError s)
      | ch # cs \<Rightarrow>
          if 4300 < length (filter (\<lambda>c. digit_of c \<noteq> None) s) then Inl (ValueError s)
          else if ch = CHR ''-'' then
            (case decimal cs 0 of None \<Rightarrow> Inl (ValueError s) | Some n \<Rightarrow> Inr (- int n))
          else if ch = CHR ''+'' then
            (case decimal cs 0 of None \<Rightarrow> Inl (ValueError s) | Some n \<Rightarrow> Inr (int n))
          else
            (case decimal (ch # cs) 0 of None \<Rightarrow> Inl (ValueError s) | Some n \<Rightarrow> Inr (int n)))"

text \<open>
  \<^verbatim>\<open>datetime.fromtimestamp\<close> as CPython answers on Linux when the local zone is
  \<^verbatim>\<open>UTC\<close>: a date between the years 1 and 9999, \<^verbatim>\<open>ValueError\<close> for a year out of that
  range, \<^verbatim>\<open>OSError\<close> where the C library gives up, \<^verbatim>\<open>OverflowError\<close> for a number that
  does not fit the platform's type for time.
\<close>

definition fromtimestamp_utc :: "int \<Rightarrow> exc + int" where
  "fromtimestamp_utc t =
     (if t < - (2 ^ 63) \<or> 2 ^ 63 \<le> t then
        Inl (Exception ''OverflowError: timestamp out of range for platform time_t'')
      else if t < - 67768040609740800 \<or> 67768036191676800 \<le> t then
        Inl (Exception ''OSError: [Errno 75] Value too large for defined data type'')
      else if t < - 62135510400 \<or> 253402300800 \<le> t then Inl (ValueError ''year is out of range'')
      else Inr t)"

definition example_world :: "(string \<Rightarrow> exc + element) \<Rightarrow> world" where
  "example_world answers =
     \<lparr>environ = (\<lambda>name. if name = ''PLEX_TOKEN'' then Some ''secret'' else None),
      known_zone = (\<lambda>zone. zone = ''UTC''),
      py_int = int_of_string,
      fromtimestamp = fromtimestamp_utc,
      now_us = 1700000000500000,
      http_get = answers,
      http_put = (\<lambda>endpoint params. Inr ()),
      configs_error = None\<rparr>"

definition not_found :: exc where
  "not_found = HTTPError 404 ''404 Client Error: Not Found''"


text \<open>
  A server whose library 5 holds two films, the first added at the instant 24 hours
  before the clock of the example world, the second one second earlier.
\<close>

definition film_on_the_edge :: element where
  "film_on_the_edge =
     Element ''Video''
       [(''key'', ''/library/metadata/1''), (''title'', ''On the edge''),
        (''type'', ''movie''), (''addedAt'', ''1699913600'')] []"

definition film_too_old :: element where
  "film_too_old =
     Element ''Video''
       [(''key'', ''/library/metadata/2''), (''title'', ''Too old''),
        (''type'', ''movie''), (''addedAt'', ''1699913599'')] []"

definition films :: element where
  "films = Element ''MediaContainer'' [(''title1'', ''Films'')] [film_on_the_edge, film_too_old]"

definition answers_two_films :: "string \<Rightarrow> exc + element" where
  "answers_two_films endpoint =
     (if endpoint = ''/'' then Inr (Element ''MediaContainer'' [(''friendlyName'', ''home'')] [])
      else if endpoint = ''/library/sections/5/all'' then Inr films
      else Inl not_found)"

text \<open>The client of the example world once connected.\<close>

definition connected_client :: plex_client where
  "connected_client =
     \<lparr>plex_url = ''http://localhost:32400'',
      plex_token = ''secret'',
      server_info = Some \<lparr>friendlyName = ''home'', version = ''Unknown'', platform = ''Unknown''\<rparr>,
      server_timezone = Some ''UTC''\<rparr>"

text \<open>
  A server with three libraries. Library 1 holds the two films, of which the first is
  unmatched and has one candidate match; the request for the items of library 2 fails with
  a connection error; library 3 holds one song, already matched.
\<close>

definition film_lookup :: element where
  "film_lookup =
     Element ''MediaContainer'' []
       [Element ''Video''
          [(''key'', ''/library/metadata/1''), (''title'', ''On the edge''),
           (''guid'', ''plex://movie/1'')] []]"

definition film_matches :: element where
  "film_matches =
     Element ''MediaContainer'' []
       [Element ''SearchResult'' [(''guid'', ''tmdb://999''), (''name'', ''Foo'')] []]"

definition song :: element where
  "song =
     Element ''Track''
       [(''key'', ''/library/metadata/3''), (''title'', ''Song''),
        (''type'', ''track''), (''addedAt'', ''1699999999''), (''guid'', ''mbid://abc'')] []"

definition songs :: element where
  "songs = Element ''MediaContainer'' [(''title1'', ''Music'')] [song]"

definition connection_aborted :: exc where
  "connection_aborted = RequestException ''Connection aborted''"

definition answers_three_libraries :: "string \<Rightarrow> exc + element" where
  "answers_three_libraries endpoint =
     (if endpoint = ''/'' then Inr (Element ''MediaContainer'' [(''friendlyName'', ''home'')] [])
      else if endpoint = ''/library/sections/1/all'' then Inr films
      else if endpoint = ''/library/sections/2/all'' then Inl connection_aborted
      else if endpoint = ''/library/sections/3/all'' then Inr songs
      else if endpoint = ''/library/metadata/1'' then Inr film_lookup
      else if endpoint = ''/library/metadata/1/matches'' then Inr film_matches
      else if endpoint = ''/library/metadata/3'' then Inr songs
      else Inl not_found)"

definition config_films :: library_config where
  "config_films =
     \<lparr>lc_id = 1, library_key = ''1'', library_name = ''Films'', library_type = ''movie'',
      agent_name = ''TheMovieDB'', enabled = True\<rparr>"

definition config_shows :: library_config where
  "config_shows =
     \<lparr>lc_id = 2, library_key = ''2'', library_name = ''Shows'', library_type = ''show'',
      agent_name = ''TheTVDB'', enabled = True\<rparr>"

definition config_music :: library_config where
  "config_music =
     \<lparr>lc_id = 3, library_key = ''3'', library_name = ''Music'', library_type = ''artist'',
      agent_name = ''LastFM'', enabled = True\<rparr>"

definition three_libraries :: db where
  "three_libraries =
     \<lparr>library_configs = [config_films, config_shows, config_music],
      media_items = [],
      scan_logs = []\<rparr>"

definition film_info :: media_info where
  "film_info =
     \<lparr>mi_key = Some ''/library/metadata/1'', mi_title = Some ''On the edge'',
      mi_type = Some ''movie'', mi_addedAt = 1699913600,
      mi_addedAt_server = (1699913600, ''UTC''), mi_year = None, mi_summary = []\<rparr>"

definition song_info :: media_info where
  "song_info =
     \<lparr>mi_key = Some ''/library/metadata/3'', mi_title = Some ''Song'',
      mi_type = Some ''track'', mi_addedAt = 1699999999,
      mi_addedAt_server = (1699999999, ''UTC''), mi_year = None, mi_summary = []\<rparr>"

definition film_row :: media_item where
  "film_row =
     \<lparr>library_config_id = 1, plex_key = Some ''/library/metadata/1'',
      title = Some ''On the edge'', media_type = Some ''movie'', added_at = 1699913600,
      processed_at = 1700000000500000, agent_matched = Some ''TheMovieDB'',
      match_successful = True, item_error_message = None\<rparr>"

definition song_row :: media_item where
  "song_row =
     \<lparr>library_config_id = 3, plex_key = Some ''/library/metadata/3'',
      title = Some ''Song'', media_type = Some ''track'', added_at = 1699999999,
      processed_at = 1700000000500000, agent_matched = Some ''LastFM'',
      match_successful = True, item_error_message = None\<rparr>"

definition three_libraries_log :: "int \<Rightarrow> int \<Rightarrow> scan_log" where
  "three_libraries_log n_found n_matched =
     \<lparr>scan_started_at = 1700000000500000,
      scan_completed_at = Some 1700000000500000,
      total_libraries = 3,
      total_media_found = n_found,
      total_matched = n_matched,
      total_errors = 0,
      status = ''completed'',
      error_message = None\<rparr>"

text \<open>
  A world without a token, whose server would answer; and a world with a token whose
  server refuses the connection.
\<close>

definition no_token_world :: world where
  "no_token_world = (example_world answers_three_libraries)\<lparr>environ := (\<lambda>name. None)\<rparr>"

definition refused_world :: world where
  "refused_world = example_world (\<lambda>endpoint. Inl (RequestException ''Connection refused''))"

text \<open>A world whose database fails when the configurations are read.\<close>

definition broken_database_world :: world where
  "broken_database_world =
     (example_world answers_three_libraries)\<lparr>configs_error := Some (Exception ''database is locked'')\<rparr>"


text \<open>
  A server whose library 5 holds the film added at the cutoff and a film whose
  \<open>addedAt\<close> is a number too large for a time.
\<close>

definition film_out_of_range :: element where
  "film_out_of_range =
     Element ''Video''
       [(''key'', ''/library/metadata/9''), (''title'', ''Out of range''),
        (''type'', ''movie''), (''addedAt'', ''100000000000000000000'')] []"

definition films_out_of_range :: element where
  "films_out_of_range =
     Element ''MediaContainer'' [(''title1'', ''Films'')] [film_on_the_edge, film_out_of_range]"

definition answers_out_of_range :: "string \<Rightarrow> exc + element" where
  "answers_out_of_range endpoint =
     (if endpoint = ''/'' then Inr (Element ''MediaContainer'' [(''friendlyName'', ''home'')] [])
      else if endpoint = ''/library/sections/5/all'' then Inr films_out_of_range
      else Inl not_found)"

text \<open>
  A server whose library 1 holds two films, both matched: one added a minute before the
  clock of the example world, and one added at the cutoff that has no title.
\<close>

definition film_recent :: element where
  "film_recent =
     Element ''Video''
       [(''key'', ''/library/metadata/4''), (''title'', ''Recent''), (''type'', ''movie''),
        (''addedAt'', ''1699999940''), (''guid'', ''imdb://tt4'')] []"

definition film_untitled :: element where
  "film_untitled =
     Element ''Video''
       [(''key'', ''/library/metadata/2''), (''type'', ''movie''),
        (''addedAt'', ''1699913600''), (''guid'', ''imdb://tt2'')] []"

definition films_untitled :: element where
  "films_untitled = Element ''MediaContainer'' [(''title1'', ''Films'')] [film_recent, film_untitled]"

definition answers_untitled :: "string \<Rightarrow> exc + element" where
  "answers_untitled endpoint =
     (if endpoint = ''/'' then Inr (Element ''MediaContainer'' [(''friendlyName'', ''home'')] [])
      else if endpoint = ''/library/sections/1/all'' then Inr films_untitled
      else if endpoint = ''/library/metadata/4'' then Inr films_untitled
      else if endpoint = ''/library/metadata/2'' then Inr films_untitled
      else Inl not_found)"

definition one_library :: db where
  "one_library = \<lparr>library_configs = [config_films], media_items = [], scan_logs = []\<rparr>"

definition recent_info :: media_info where
  "recent_info =
     \<lparr>mi_key = Some ''/library/metadata/4'', mi_title = Some ''Recent'',
      mi_type = Some ''movie'', mi_addedAt = 1699999940,
      mi_addedAt_server = (1699999940, ''UTC''), mi_year = None, mi_summary = []\<rparr>"

definition untitled_info :: media_info where
  "untitled_info =
     \<lparr>mi_key = Some ''/library/metadata/2'', mi_title = None,
      mi_type = Some ''movie'', mi_addedAt = 1699913600,
      mi_addedAt_server = (1699913600, ''UTC''), mi_year = None, mi_summary = []\<rparr>"

definition recent_row :: "int \<Rightarrow> media_item" where
  "recent_row clock =
     \<lparr>library_config_id = 1, plex_key = Some ''/library/metadata/4'',
      title = Some ''Recent'', media_type = Some ''movie'', added_at = 1699999940,
      processed_at = clock, agent_matched = Some ''TheMovieDB'',
      match_successful = True, item_error_message = None\<rparr>"

definition untitled_row :: media_item where
  "untitled_row =
     \<lparr>library_config_id = 1, plex_key = Some ''/library/metadata/2'',
      title = None, media_type = Some ''movie'', added_at = 1699913600,
      processed_at = 1700000000500000, agent_matched = Some ''TheMovieDB'',
      match_successful = True, item_error_message = None\<rparr>"

text \<open>The same world an hour later.\<close>

definition an_hour_later :: "world \<Rightarrow> world" where
  "an_hour_later w = w\<lparr>now_us := now_us w + 3600 * 1000000\<rparr>"
section \<open>Evaluating the examples\<close>

lemmas client_defs = PlexClient_def getenv_def make_request_def connect_def ensure_connected_def
  connect_timezone_def TZ_def timezone_pref_def

lemmas xml_defs = findall_def elem_get_def elem_get_default_def media_elements_def

lemmas match_defs = match_with_agent_def match_body_def unmatched_branch_def first_match_body_def
  lookup_media_def is_guid_matched_def startswith_def fmt_def truthy_def

lemma example_world_fields:
  "environ (example_world answers) = (\<lambda>name. if name = ''PLEX_TOKEN'' then Some ''secret'' else None)"
  "known_zone (example_world answers) = (\<lambda>zone. zone = ''UTC'')"
  "py_int (example_world answers) = int_of_string"
  "fromtimestamp (example_world answers) = fromtimestamp_utc"
  "now_us (example_world answers) = 1700000000500000"
  "http_get (example_world answers) = answers"
  "http_put (example_world answers) = (\<lambda>endpoint params. Inr ())"
  "configs_error (example_world answers) = None"
  by (simp_all add: example_world_def)


lemma connect_two_films:
  "ensure_connected (example_world answers_two_films) (PlexClient (example_world answers_two_films))
     = (True, connected_client)"
  by (simp add: client_defs xml_defs example_world_fields answers_two_films_def not_found_def
        connected_client_def)

lemma bit_length_0: "bit_length 0 = 0"
  by (simp add: bit_length.simps)

lemma bit_length_pos: "0 < n \<Longrightarrow> bit_length n = Suc (bit_length (n div 2))"
  by (subst bit_length.simps) simp

lemma bit_length_example: "bit_length 1699913600 = 31" "bit_length 1699917200 = 31"
  by (simp_all add: bit_length_0 bit_length_pos)

lemma timestamp_example: "timestamp_int 1699913600500000 = 1699913600"
  by (simp add: timestamp_int_def whole_seconds_def bit_length_example round_half_even_def Let_def)

lemma timestamp_later: "timestamp_int 1699917200500000 = 1699917200"
  by (simp add: timestamp_int_def whole_seconds_def bit_length_example round_half_even_def Let_def)

lemma cutoff_example: "cutoff_timestamp (example_world answers) 24 = 1699913600"
  by (simp add: cutoff_timestamp_def example_world_fields timestamp_example)

lemma cutoff_later: "cutoff_timestamp (an_hour_later (example_world answers)) 24 = 1699917200"
  by (simp add: cutoff_timestamp_def an_hour_later_def example_world_fields timestamp_later)

lemma int_of_string_examples:
  "int_of_string ''1699913600'' = Inr 1699913600"
  "int_of_string ''1699913599'' = Inr 1699913599"
  "int_of_string ''1699999999'' = Inr 1699999999"
  "int_of_string ''1699999940'' = Inr 1699999940"
  "int_of_string ''100000000000000000000'' = Inr 100000000000000000000"
  by (simp_all add: int_of_string_def strip_def is_space_def digit_of_def)

lemma fromtimestamp_examples:
  "fromtimestamp_utc 1699913600 = Inr 1699913600"
  "fromtimestamp_utc 1699913599 = Inr 1699913599"
  "fromtimestamp_utc 1699999999 = Inr 1699999999"
  "fromtimestamp_utc 1699999940 = Inr 1699999940"
  "fromtimestamp_utc 100000000000000000000
     = Inl (Exception ''OverflowError: timestamp out of range for platform time_t'')"
  by (simp_all add: fromtimestamp_utc_def)

lemma truncate_summary_empty: "truncate_summary [] = []"
  by (simp add: truncate_summary_def)

lemma media_elements_films: "media_elements films = [film_on_the_edge, film_too_old]"
  by (simp add: xml_defs films_def film_on_the_edge_def film_too_old_def)

section \<open>Classification of an identifier\<close>

lemma startswith_iff: "startswith s p = (\<exists>r. s = p @ r)"
  unfolding startswith_def
  by (metis append_eq_conv_conj append_take_drop_id)

text \<open>
  C1. The classification is a function of the identifier alone. An identifier is
  unmatched exactly when it is missing, empty, or begins with \<^verbatim>\<open>plex://\<close> or
  \<^verbatim>\<open>local://\<close>, and matched otherwise; the empty identifier, \<^verbatim>\<open>plex://abc\<close> and
  \<^verbatim>\<open>local://x\<close> are unmatched, \<^verbatim>\<open>imdb://tt123\<close> and \<^verbatim>\<open>tvdb://55\<close> are matched.
\<close>

theorem is_guid_matched_classification:
  "(\<not> is_guid_matched g) =
     (g = None \<or> g = Some [] \<or> (\<exists>r. g = Some (''plex://'' @ r)) \<or> (\<exists>r. g = Some (''local://'' @ r)))
   \<and> \<not> is_guid_matched (Some '''')
   \<and> \<not> is_guid_matched (Some ''plex://abc'')
   \<and> \<not> is_guid_matched (Some ''local://x'')
   \<and> is_guid_matched (Some ''imdb://tt123'')
   \<and> is_guid_matched (Some ''tvdb://55'')"
proof -
  have "(\<not> is_guid_matched g) =
     (g = None \<or> g = Some [] \<or> (\<exists>r. g = Some (''plex://'' @ r)) \<or> (\<exists>r. g = Some (''local://'' @ r)))"
    by (cases g) (auto simp: is_guid_matched_def startswith_iff)
  moreover have "\<not> is_guid_matched (Some '''')" "\<not> is_guid_matched (Some ''plex://abc'')"
    "\<not> is_guid_matched (Some ''local://x'')" "is_guid_matched (Some ''imdb://tt123'')"
    "is_guid_matched (Some ''tvdb://55'')"
    by (simp_all add: is_guid_matched_def startswith_def)
  ultimately show ?thesis by blast
qed

theorem is_guid_matched_classification_witness:
  "\<not> is_guid_matched (Some ''plex://abc'') \<and> is_guid_matched (Some ''tvdb://55'')"
  using is_guid_matched_classification [of "Some ''plex://abc''"] by blast

text \<open>
  C9. An identifier that is present is matched exactly when it is not empty and does not
  begin with \<^verbatim>\<open>plex://\<close> or \<^verbatim>\<open>local://\<close>. So every identifier that is not empty and
  has neither prefix is matched, whether or not it names a provider: \<^verbatim>\<open>abc\<close> and
  \<^verbatim>\<open>file:///x\<close> are matched, and so are \<^verbatim>\<open>PLEX://abc\<close> and \<^verbatim>\<open>plex:/abc\<close>, which miss
  the exact prefix. And only the empty identifier and the two prefixes give unmatched:
  the empty identifier is unmatched, and so is whatever begins with one of the two
  prefixes, the bare prefixes included.
\<close>

theorem is_guid_matched_otherwise:
  "is_guid_matched (Some g) =
     (g \<noteq> [] \<and> \<not> startswith g ''plex://'' \<and> \<not> startswith g ''local://'')
   \<and> \<not> is_guid_matched (Some [])
   \<and> \<not> is_guid_matched (Some (''plex://'' @ r))
   \<and> \<not> is_guid_matched (Some (''local://'' @ r))
   \<and> \<not> is_guid_matched (Some ''plex://'')
   \<and> \<not> is_guid_matched (Some ''local://'')
   \<and> is_guid_matched (Some ''abc'')
   \<and> is_guid_matched (Some ''file:///x'')
   \<and> is_guid_matched (Some ''PLEX://abc'')
   \<and> is_guid_matched (Some ''plex:/abc'')"
proof -
  have iff: "is_guid_matched (Some g) =
      (g \<noteq> [] \<and> \<not> startswith g ''plex://'' \<and> \<not> startswith g ''local://'')"
    by (simp add: is_guid_matched_def)
  have prefixed: "\<not> is_guid_matched (Some (''plex://'' @ r))"
    "\<not> is_guid_matched (Some (''local://'' @ r))"
    by (simp_all add: is_guid_matched_def startswith_iff)
  have unmatched: "\<not> is_guid_matched (Some [])" "\<not> is_guid_matched (Some ''plex://'')"
    "\<not> is_guid_matched (Some ''local://'')"
    by (simp_all add: is_guid_matched_def startswith_def)
  have matched: "is_guid_matched (Some ''abc'')" "is_guid_matched (Some ''file:///x'')"
    "is_guid_matched (Some ''PLEX://abc'')" "is_guid_matched (Some ''plex:/abc'')"
    by (simp_all add: is_guid_matched_def startswith_def)
  from iff prefixed unmatched matched show ?thesis by blast
qed

theorem is_guid_matched_otherwise_witness:
  "is_guid_matched (Some ''tmdb://603'')
   \<and> \<not> is_guid_matched (Some ''plex://movie/5d776b59ad5437001f79c6f8'')
   \<and> \<not> is_guid_matched (Some ''local://42'')
   \<and> startswith ''local://42'' ''local://''
   \<and> \<not> startswith ''tmdb://603'' ''plex://''"
  using is_guid_matched_otherwise [of "''tmdb://603''" "''movie/5d776b59ad5437001f79c6f8''"]
        is_guid_matched_otherwise [of "''local://42''" "''42''"]
  by (simp add: startswith_def)

section \<open>Reconciliation\<close>



lemma mwa_returned:
  "ensure_connected w c = (True, c') \<Longrightarrow> match_body w c' mk = Inr r \<Longrightarrow>
   match_with_agent w c lk mk ag = (r, c')"
  by (simp add: match_with_agent_def)














section \<open>The recency window\<close>

lemma recent_loop_acc:
  "recent_loop w c cutoff items acc = Inr r \<Longrightarrow>
   set r = set acc \<union> {m. \<exists>i \<in> set items. recent_item w c cutoff i = Inr (Some m)}"
proof (induction items arbitrary: acc)
  case Nil
  then show ?case by simp
next
  case (Cons item items)
  show ?case
  proof (cases "recent_item w c cutoff item")
    case (Inl e)
    with Cons.prems show ?thesis by simp
  next
    case (Inr x)
    show ?thesis
    proof (cases x)
      case None
      with Inr Cons.prems have "recent_loop w c cutoff items acc = Inr r" by simp
      from Cons.IH [OF this] Inr None show ?thesis by auto
    next
      case (Some m)
      with Inr Cons.prems have "recent_loop w c cutoff items (acc @ [m]) = Inr r" by simp
      from Cons.IH [OF this] Inr Some show ?thesis by auto
    qed
  qed
qed

lemma recent_loop_no_raise:
  "recent_loop w c cutoff items acc = Inr r \<Longrightarrow> i \<in> set items \<Longrightarrow>
   \<exists>x. recent_item w c cutoff i = Inr x"
proof (induction items arbitrary: acc)
  case Nil
  then show ?case by simp
next
  case (Cons item items)
  show ?case
  proof (cases "recent_item w c cutoff item")
    case (Inl e)
    with Cons.prems show ?thesis by simp
  next
    case (Inr x)
    show ?thesis
    proof (cases "i = item")
      case True
      with Inr show ?thesis by simp
    next
      case False
      with Cons.prems have i: "i \<in> set items" by simp
      show ?thesis
      proof (cases x)
        case None
        with Inr Cons.prems have "recent_loop w c cutoff items acc = Inr r" by simp
        from Cons.IH [OF this i] show ?thesis .
      next
        case (Some m)
        with Inr Cons.prems have "recent_loop w c cutoff items (acc @ [m]) = Inr r" by simp
        from Cons.IH [OF this i] show ?thesis .
      qed
    qed
  qed
qed

lemma get_recent_media_returned:
  "ensure_connected w c0 = (True, c) \<Longrightarrow>
   make_request w c (''/library/sections/'' @ lk @ ''/all'') = Inr root \<Longrightarrow>
   recent_loop w c (cutoff_timestamp w hours) (media_elements root) [] = Inr ms \<Longrightarrow>
   get_recent_media w c0 lk hours = (sort_key (\<lambda>x. - mi_addedAt x) ms, c)"
  by (simp add: get_recent_media_def recent_media_body_def)

lemma recent_item_below:
  "elem_get item ''addedAt'' = Some s \<Longrightarrow> s \<noteq> [] \<Longrightarrow> py_int w s = Inr ts \<Longrightarrow>
   fromtimestamp w ts = Inr dt \<Longrightarrow> ts < cutoff \<Longrightarrow> recent_item w c cutoff item = Inr None"
  by (simp add: recent_item_def media_of_item_def)

lemma recent_item_within:
  "elem_get item ''addedAt'' = Some s \<Longrightarrow> s \<noteq> [] \<Longrightarrow> py_int w s = Inr ts \<Longrightarrow>
   fromtimestamp w ts = Inr dt \<Longrightarrow> cutoff \<le> ts \<Longrightarrow> recent_item w c cutoff item = Inr x \<Longrightarrow>
   \<exists>m. x = Some m \<and> mi_key m = elem_get item ''key'' \<and> mi_addedAt m = dt"
  by (auto simp: recent_item_def media_of_item_def caught_by_item_handler_def split: option.splits if_splits)

text \<open>
  The window when no item makes the loop leave by an exception: an item is listed exactly
  when its \<open>addedAt\<close> is at or after the cutoff, so one at the cutoff is listed and one
  a second earlier is not, and the cutoff is the instant \<open>hours\<close> before the clock.
\<close>

lemma recent_window_closed:
  assumes "ensure_connected w c0 = (True, c)"
    and "make_request w c (''/library/sections/'' @ lk @ ''/all'') = Inr root"
    and "recent_loop w c (timestamp_int (now_us w - hours * 3600 * 1000000)) (media_elements root) []
           = Inr ms"
    and "item \<in> set (media_elements root)"
    and "elem_get item ''addedAt'' = Some s" "s \<noteq> []"
    and "py_int w s = Inr ts" "fromtimestamp w ts = Inr dt"
  shows "(timestamp_int (now_us w - hours * 3600 * 1000000) \<le> ts \<longrightarrow>
           (\<exists>m \<in> set (fst (get_recent_media w c0 lk hours)).
              mi_key m = elem_get item ''key'' \<and> mi_addedAt m = dt))
         \<and> (ts < timestamp_int (now_us w - hours * 3600 * 1000000) \<longrightarrow>
              recent_item w c (timestamp_int (now_us w - hours * 3600 * 1000000)) item = Inr None)
         \<and> set (fst (get_recent_media w c0 lk hours)) =
              {m. \<exists>i \<in> set (media_elements root).
                    recent_item w c (timestamp_int (now_us w - hours * 3600 * 1000000)) i = Inr (Some m)}"
proof -
  let ?cut = "timestamp_int (now_us w - hours * 3600 * 1000000)"
  have cut: "cutoff_timestamp w hours = ?cut" by (simp add: cutoff_timestamp_def)
  note loop = assms(3) [folded cut]
  have res: "set (fst (get_recent_media w c0 lk hours)) =
      {m. \<exists>i \<in> set (media_elements root). recent_item w c ?cut i = Inr (Some m)}"
    using get_recent_media_returned [OF assms(1,2) loop] recent_loop_acc [OF assms(3)] by simp
  obtain x where x: "recent_item w c ?cut item = Inr x"
    using recent_loop_no_raise [OF assms(3,4)] by blast
  have within: "\<exists>m \<in> set (fst (get_recent_media w c0 lk hours)).
      mi_key m = elem_get item ''key'' \<and> mi_addedAt m = dt" if "?cut \<le> ts"
  proof -
    from recent_item_within [OF assms(5,6,7,8) that x] obtain m where
      m: "x = Some m" "mi_key m = elem_get item ''key''" "mi_addedAt m = dt" by blast
    with x assms(4) res have "m \<in> set (fst (get_recent_media w c0 lk hours))" by blast
    with m show ?thesis by blast
  qed
  have below: "recent_item w c ?cut item = Inr None" if "ts < ?cut"
    using recent_item_below [OF assms(5,6,7,8) that] .
  from within below res show ?thesis by blast
qed

lemma connect_out_of_range:
  "ensure_connected (example_world answers_out_of_range) (PlexClient (example_world answers_out_of_range))
     = (True, connected_client)"
  by (simp add: client_defs xml_defs example_world_fields answers_out_of_range_def not_found_def
        connected_client_def)

lemma recent_item_film:
  "recent_item (example_world answers) connected_client 1699913600 film_on_the_edge = Inr (Some film_info)"
  by (simp add: recent_item_def media_of_item_def xml_defs film_on_the_edge_def example_world_fields
        int_of_string_examples fromtimestamp_examples connected_client_def truncate_summary_empty
        film_info_def)

lemma recent_item_too_old:
  "recent_item (example_world answers) connected_client 1699913600 film_too_old = Inr None"
  by (simp add: recent_item_def media_of_item_def xml_defs film_too_old_def example_world_fields
        int_of_string_examples fromtimestamp_examples)

lemma recent_item_out_of_range:
  "recent_item (example_world answers) connected_client 1699913600 film_out_of_range
     = Inl (Exception ''OverflowError: timestamp out of range for platform time_t'')"
  by (simp add: recent_item_def media_of_item_def xml_defs film_out_of_range_def example_world_fields
        int_of_string_examples fromtimestamp_examples caught_by_item_handler_def)

lemma media_elements_out_of_range:
  "media_elements films_out_of_range = [film_on_the_edge, film_out_of_range]"
  by (simp add: xml_defs films_out_of_range_def film_on_the_edge_def film_out_of_range_def)

lemma listing_two_films:
  "get_recent_media (example_world answers_two_films) (PlexClient (example_world answers_two_films))
     ''5'' 24 = ([film_info], connected_client)"
proof -
  let ?W = "example_world answers_two_films"
  have req: "make_request ?W connected_client (''/library/sections/'' @ ''5'' @ ''/all'') = Inr films"
    by (simp add: make_request_def connected_client_def example_world_fields answers_two_films_def)
  have loop: "recent_loop ?W connected_client (cutoff_timestamp ?W 24) (media_elements films) []
      = Inr [film_info]"
    by (simp add: cutoff_example media_elements_films recent_item_film recent_item_too_old)
  from get_recent_media_returned [OF connect_two_films req loop] show ?thesis by simp
qed

lemma listing_out_of_range:
  "get_recent_media (example_world answers_out_of_range)
     (PlexClient (example_world answers_out_of_range)) ''5'' 24 = ([], connected_client)"
proof -
  let ?W = "example_world answers_out_of_range"
  have req: "make_request ?W connected_client (''/library/sections/'' @ ''5'' @ ''/all'')
      = Inr films_out_of_range"
    by (simp add: make_request_def connected_client_def example_world_fields answers_out_of_range_def)
  have loop: "recent_loop ?W connected_client (cutoff_timestamp ?W 24)
      (media_elements films_out_of_range) []
      = Inl (Exception ''OverflowError: timestamp out of range for platform time_t'')"
    by (simp add: cutoff_example media_elements_out_of_range recent_item_film recent_item_out_of_range)
  show ?thesis
    using req by (simp add: get_recent_media_def recent_media_body_def connect_out_of_range loop)
qed

text \<open>
  C6. The comparison with the cutoff is closed, but an item at the cutoff is not always
  listed. The clock of the example world reads 1700000000.5 seconds, so the cutoff of a
  window of 24 hours is 1699913600. Library 5 holds a film whose \<open>addedAt\<close> is that
  number; taken alone it is within the window, and it is listed when the other film of the
  library is one second older. When the other film's \<open>addedAt\<close> is
  100000000000000000000, \<^verbatim>\<open>datetime.fromtimestamp\<close> raises \<^verbatim>\<open>OverflowError\<close> on it,
  which the handler of the item (for \<^verbatim>\<open>ValueError\<close> and \<^verbatim>\<open>TypeError\<close>) does not
  catch; the handler of the method does, and answers with the empty list: the film at the
  cutoff is not in the result.
\<close>

theorem get_recent_media_boundary_lost:
  "cutoff_timestamp (example_world answers_out_of_range) 24 = 1699913600
   \<and> now_us (example_world answers_out_of_range) - 24 * 3600 * 1000000 = 1699913600 * 1000000 + 500000
   \<and> http_get (example_world answers_out_of_range) ''/library/sections/5/all'' = Inr films_out_of_range
   \<and> media_elements films_out_of_range = [film_on_the_edge, film_out_of_range]
   \<and> elem_get film_on_the_edge ''addedAt'' = Some ''1699913600''
   \<and> py_int (example_world answers_out_of_range) ''1699913600'' = Inr 1699913600
   \<and> recent_item (example_world answers_out_of_range) connected_client 1699913600 film_on_the_edge
       = Inr (Some film_info)
   \<and> recent_item (example_world answers_out_of_range) connected_client 1699913600 film_out_of_range
       = Inl (Exception ''OverflowError: timestamp out of range for platform time_t'')
   \<and> fst (get_recent_media (example_world answers_out_of_range)
             (PlexClient (example_world answers_out_of_range)) ''5'' 24) = []
   \<and> fst (get_recent_media (example_world answers_two_films)
             (PlexClient (example_world answers_two_films)) ''5'' 24) = [film_info]"
  by (simp add: cutoff_example example_world_fields answers_out_of_range_def
        media_elements_out_of_range int_of_string_examples recent_item_film recent_item_out_of_range
        listing_out_of_range listing_two_films)
     (simp add: elem_get_def film_on_the_edge_def)

section \<open>The scan\<close>

subsection \<open>The table keeps its pairs distinct\<close>











lemma commit_inactive:
  "inactive ss \<Longrightarrow> commit ss = (Inl pending_rollback_error, ss)"
  by (simp add: commit_def flush_def)

lemma commit_empty:
  "\<not> inactive ss \<Longrightarrow> pending ss = [] \<Longrightarrow>
   commit ss = (Inr (), ss\<lparr>stored := stored ss @ flushed ss, flushed := []\<rparr>)"
  by (simp add: commit_def flush_def)

lemma begin_session_fields:
  "stored (begin_session d) = media_items d" "flushed (begin_session d) = []"
  "pending (begin_session d) = []" "\<not> inactive (begin_session d)"
  by (simp_all add: begin_session_def)

lemma commit_begin_session: "commit (begin_session d) = (Inr (), begin_session d)"
  by (simp add: commit_empty begin_session_def)



subsection \<open>A failed connection, and a failed query for the configurations\<close>

lemma scan_not_connected:
  "connect w (PlexClient w) = (False, c) \<Longrightarrow>
   scan_libraries w d =
     (None, d\<lparr>scan_logs := scan_logs d @ [failed_scan_log w ''Failed to connect to Plex server'']\<rparr>)"
  by (simp add: scan_libraries_def scan_try_def commit_begin_session failed_scan_log_def
        begin_session_fields)

lemma scan_configs_error:
  "connect w (PlexClient w) = (True, c) \<Longrightarrow> configs_error w = Some e \<Longrightarrow>
   scan_libraries w d =
     (None, d\<lparr>scan_logs := scan_logs d @ [failed_scan_log w (str_exc e)]\<rparr>)"
  by (simp add: scan_libraries_def scan_try_def commit_begin_session failed_scan_log_def
        begin_session_fields)

section \<open>The example scans\<close>

lemma connected_client_fields:
  "server_info connected_client \<noteq> None" "server_timezone connected_client = Some ''UTC''"
  "plex_token connected_client = ''secret''"
  by (simp_all add: connected_client_def)

lemma ensure_connected_client: "ensure_connected w connected_client = (True, connected_client)"
  by (simp add: ensure_connected_def connected_client_def)

lemma an_hour_later_fields:
  "environ (an_hour_later w) = environ w" "known_zone (an_hour_later w) = known_zone w"
  "py_int (an_hour_later w) = py_int w" "fromtimestamp (an_hour_later w) = fromtimestamp w"
  "now_us (an_hour_later w) = now_us w + 3600000000"
  "http_get (an_hour_later w) = http_get w" "http_put (an_hour_later w) = http_put w"
  "configs_error (an_hour_later w) = configs_error w"
  by (simp_all add: an_hour_later_def)

subsection \<open>Three libraries, of which the second cannot be fetched\<close>

lemma connect_three_libraries:
  "connect (example_world answers_three_libraries) (PlexClient (example_world answers_three_libraries))
     = (True, connected_client)"
  by (simp add: client_defs xml_defs example_world_fields answers_three_libraries_def not_found_def
        connected_client_def)

lemma media_elements_songs: "media_elements songs = [song]"
  by (simp add: xml_defs songs_def song_def)

lemma recent_item_song:
  "recent_item (example_world answers) connected_client 1699913600 song = Inr (Some song_info)"
  by (simp add: recent_item_def media_of_item_def xml_defs song_def example_world_fields
        int_of_string_examples fromtimestamp_examples connected_client_def truncate_summary_empty
        song_info_def)

lemma listing_films:
  "get_recent_media (example_world answers_three_libraries) connected_client ''1'' 24
     = ([film_info], connected_client)"
proof -
  let ?W = "example_world answers_three_libraries"
  have req: "make_request ?W connected_client (''/library/sections/'' @ ''1'' @ ''/all'') = Inr films"
    by (simp add: make_request_def connected_client_def example_world_fields answers_three_libraries_def)
  have loop: "recent_loop ?W connected_client (cutoff_timestamp ?W 24) (media_elements films) []
      = Inr [film_info]"
    by (simp add: cutoff_example media_elements_films recent_item_film recent_item_too_old)
  from get_recent_media_returned [OF ensure_connected_client req loop] show ?thesis by simp
qed

lemma listing_shows:
  "get_recent_media (example_world answers_three_libraries) connected_client ''2'' 24
     = ([], connected_client)"
  by (simp add: get_recent_media_def recent_media_body_def ensure_connected_client make_request_def
        connected_client_fields example_world_fields answers_three_libraries_def
        connection_aborted_def)

lemma listing_music:
  "get_recent_media (example_world answers_three_libraries) connected_client ''3'' 24
     = ([song_info], connected_client)"
proof -
  let ?W = "example_world answers_three_libraries"
  have req: "make_request ?W connected_client (''/library/sections/'' @ ''3'' @ ''/all'') = Inr songs"
    by (simp add: make_request_def connected_client_def example_world_fields answers_three_libraries_def)
  have loop: "recent_loop ?W connected_client (cutoff_timestamp ?W 24) (media_elements songs) []
      = Inr [song_info]"
    by (simp add: cutoff_example media_elements_songs recent_item_song)
  from get_recent_media_returned [OF ensure_connected_client req loop] show ?thesis by simp
qed

lemma match_film:
  "match_with_agent (example_world answers_three_libraries) connected_client ''1''
     (Some ''/library/metadata/1'') ''TheMovieDB''
   = ((True, ''Matched: On the edge '' @ arrow @ '' Foo''), connected_client)"
proof -
  have "match_body (example_world answers_three_libraries) connected_client (Some ''/library/metadata/1'')
      = Inr (True, ''Matched: On the edge '' @ arrow @ '' Foo'')"
    by (simp add: match_body_def unmatched_branch_def first_match_body_def lookup_media_def
          is_guid_matched_def startswith_def fmt_def truthy_def make_request_def xml_defs
          example_world_fields answers_three_libraries_def connected_client_def
          film_lookup_def film_matches_def)
  from mwa_returned [OF ensure_connected_client this] show ?thesis .
qed

lemma match_song:
  "match_with_agent (example_world answers_three_libraries) connected_client ''3''
     (Some ''/library/metadata/3'') ''LastFM''
   = ((True, ''Refreshed matched media: Song''), connected_client)"
proof -
  have "match_body (example_world answers_three_libraries) connected_client (Some ''/library/metadata/3'')
      = Inr (True, ''Refreshed matched media: Song'')"
    by (simp add: match_body_def lookup_media_def
          is_guid_matched_def startswith_def fmt_def make_request_def xml_defs
          example_world_fields answers_three_libraries_def connected_client_def
          songs_def song_def)
  from mwa_returned [OF ensure_connected_client this] show ?thesis .
qed

lemma process_film:
  "process_media (example_world answers_three_libraries) config_films
     \<lparr>client = connected_client,
      session = \<lparr>stored = [], flushed = [], pending = [], inactive = False\<rparr>,
      found = n, matched = 0, errors = 0\<rparr> film_info
   = \<lparr>client = connected_client,
      session = \<lparr>stored = [], flushed = [], pending = [film_row], inactive = False\<rparr>,
      found = n, matched = 1, errors = 0\<rparr>"
  by (simp add: process_media_def query_existing_def flush_def existing_item_def session_add_def
        config_films_def film_info_def match_film film_row_def example_world_fields)

lemma process_song:
  "process_media (example_world answers_three_libraries) config_music
     \<lparr>client = connected_client,
      session = \<lparr>stored = [], flushed = [], pending = [film_row], inactive = False\<rparr>,
      found = n, matched = 1, errors = 0\<rparr> song_info
   = \<lparr>client = connected_client,
      session = \<lparr>stored = [], flushed = [film_row], pending = [song_row], inactive = False\<rparr>,
      found = n, matched = 2, errors = 0\<rparr>"
  by (simp add: process_media_def query_existing_def flush_def existing_item_def session_add_def
        not_null_def pair_of_def config_music_def song_info_def match_song film_row_def song_row_def
        example_world_fields)

lemma scan_configs_three_libraries:
  "scan_configs (example_world answers_three_libraries)
     \<lparr>client = connected_client,
      session = \<lparr>stored = [], flushed = [], pending = [], inactive = False\<rparr>,
      found = 0, matched = 0, errors = 0\<rparr>
     [config_films, config_shows, config_music]
   = (None,
      \<lparr>client = connected_client,
       session = \<lparr>stored = [], flushed = [film_row], pending = [song_row], inactive = False\<rparr>,
       found = 2, matched = 2, errors = 0\<rparr>)"
proof -
  have k: "library_key config_films = ''1''" "library_key config_shows = ''2''"
    "library_key config_music = ''3''"
    by (simp_all add: config_films_def config_shows_def config_music_def)
  show ?thesis
    by (simp add: scan_library_def k listing_films listing_shows listing_music process_film
          process_song)
qed

lemma commit_three_libraries:
  "commit \<lparr>stored = [], flushed = [film_row], pending = [song_row], inactive = False\<rparr>
     = (Inr (), \<lparr>stored = [film_row, song_row], flushed = [], pending = [], inactive = False\<rparr>)"
  by (simp add: commit_def flush_def not_null_def pair_of_def film_row_def song_row_def)

lemma enabled_three_libraries:
  "filter enabled (library_configs three_libraries) = [config_films, config_shows, config_music]"
  by (simp add: three_libraries_def config_films_def config_shows_def config_music_def)

lemma three_libraries_fields:
  "media_items three_libraries = []" "scan_logs three_libraries = []"
  by (simp_all add: three_libraries_def)

lemma begin_three_libraries:
  "begin_session three_libraries = \<lparr>stored = [], flushed = [], pending = [], inactive = False\<rparr>"
  by (simp add: begin_session_def three_libraries_def)

lemma scan_three_libraries:
  "scan_libraries (example_world answers_three_libraries) three_libraries
     = (None, three_libraries\<lparr>media_items := [film_row, song_row],
                              scan_logs := [three_libraries_log 2 2]\<rparr>)"
proof -
  let ?W = "example_world answers_three_libraries"
  have t: "scan_try ?W three_libraries (new_scan_log ?W)
      = (Inr (), three_libraries_log 2 2,
         \<lparr>stored = [film_row, song_row], flushed = [], pending = [], inactive = False\<rparr>)"
    by (simp add: scan_try_def connect_three_libraries example_world_fields enabled_three_libraries
          begin_three_libraries scan_configs_three_libraries commit_three_libraries
          new_scan_log_def three_libraries_log_def del: scan_configs.simps)
  show ?thesis by (simp add: scan_libraries_def t three_libraries_fields)
qed

lemma process_film_again:
  "process_media w config_films
     \<lparr>client = connected_client,
      session = \<lparr>stored = [film_row, song_row], flushed = [], pending = [], inactive = False\<rparr>,
      found = n, matched = 0, errors = 0\<rparr> film_info
   = \<lparr>client = connected_client,
      session = \<lparr>stored = [film_row, song_row], flushed = [], pending = [], inactive = False\<rparr>,
      found = n, matched = 0, errors = 0\<rparr>"
  by (simp add: process_media_def query_existing_def flush_def existing_item_def
        config_films_def film_info_def film_row_def)

lemma process_song_again:
  "process_media w config_music
     \<lparr>client = connected_client,
      session = \<lparr>stored = [film_row, song_row], flushed = [], pending = [], inactive = False\<rparr>,
      found = n, matched = 0, errors = 0\<rparr> song_info
   = \<lparr>client = connected_client,
      session = \<lparr>stored = [film_row, song_row], flushed = [], pending = [], inactive = False\<rparr>,
      found = n, matched = 0, errors = 0\<rparr>"
  by (simp add: process_media_def query_existing_def flush_def existing_item_def
        config_music_def song_info_def film_row_def song_row_def)

lemma scan_configs_three_libraries_again:
  "scan_configs (example_world answers_three_libraries)
     \<lparr>client = connected_client,
      session = \<lparr>stored = [film_row, song_row], flushed = [], pending = [], inactive = False\<rparr>,
      found = 0, matched = 0, errors = 0\<rparr>
     [config_films, config_shows, config_music]
   = (None,
      \<lparr>client = connected_client,
       session = \<lparr>stored = [film_row, song_row], flushed = [], pending = [], inactive = False\<rparr>,
       found = 2, matched = 0, errors = 0\<rparr>)"
proof -
  have k: "library_key config_films = ''1''" "library_key config_shows = ''2''"
    "library_key config_music = ''3''"
    by (simp_all add: config_films_def config_shows_def config_music_def)
  show ?thesis
    by (simp add: scan_library_def k listing_films listing_shows listing_music process_film_again
          process_song_again)
qed

lemma scan_three_libraries_again:
  assumes "filter enabled (library_configs d) = [config_films, config_shows, config_music]"
    and "media_items d = [film_row, song_row]"
  shows "scan_libraries (example_world answers_three_libraries) d
     = (None, d\<lparr>media_items := [film_row, song_row],
                 scan_logs := scan_logs d @ [three_libraries_log 2 0]\<rparr>)"
proof -
  let ?W = "example_world answers_three_libraries"
  have b: "begin_session d
      = \<lparr>stored = [film_row, song_row], flushed = [], pending = [], inactive = False\<rparr>"
    by (simp add: begin_session_def assms)
  have t: "scan_try ?W d (new_scan_log ?W)
      = (Inr (), three_libraries_log 2 0,
         \<lparr>stored = [film_row, song_row], flushed = [], pending = [], inactive = False\<rparr>)"
    by (simp add: scan_try_def connect_three_libraries example_world_fields assms(1) b
          scan_configs_three_libraries_again commit_empty
          new_scan_log_def three_libraries_log_def del: scan_configs.simps)
  show ?thesis by (simp add: scan_libraries_def t)
qed

subsection \<open>A library with a film that has no title\<close>

lemma connect_untitled:
  "connect (example_world answers_untitled) (PlexClient (example_world answers_untitled))
     = (True, connected_client)"
  by (simp add: client_defs xml_defs example_world_fields answers_untitled_def not_found_def
        connected_client_def)

lemma connect_untitled_later:
  "connect (an_hour_later (example_world answers_untitled))
     (PlexClient (an_hour_later (example_world answers_untitled))) = (True, connected_client)"
  by (simp add: client_defs xml_defs an_hour_later_fields example_world_fields answers_untitled_def
        not_found_def connected_client_def)

lemma media_elements_untitled: "media_elements films_untitled = [film_recent, film_untitled]"
  by (simp add: xml_defs films_untitled_def film_recent_def film_untitled_def)

lemma recent_item_recent:
  "recent_item (example_world answers) connected_client 1699913600 film_recent = Inr (Some recent_info)"
  "recent_item (an_hour_later (example_world answers)) connected_client 1699917200 film_recent
     = Inr (Some recent_info)"
  by (simp_all add: recent_item_def media_of_item_def xml_defs film_recent_def an_hour_later_fields
        example_world_fields int_of_string_examples fromtimestamp_examples connected_client_def
        truncate_summary_empty recent_info_def)

lemma recent_item_untitled:
  "recent_item (example_world answers) connected_client 1699913600 film_untitled
     = Inr (Some untitled_info)"
  "recent_item (an_hour_later (example_world answers)) connected_client 1699917200 film_untitled
     = Inr None"
  by (simp_all add: recent_item_def media_of_item_def xml_defs film_untitled_def an_hour_later_fields
        example_world_fields int_of_string_examples fromtimestamp_examples connected_client_def
        truncate_summary_empty untitled_info_def)

lemma listing_untitled:
  "get_recent_media (example_world answers_untitled) connected_client ''1'' 24
     = ([recent_info, untitled_info], connected_client)"
proof -
  let ?W = "example_world answers_untitled"
  have req: "make_request ?W connected_client (''/library/sections/'' @ ''1'' @ ''/all'')
      = Inr films_untitled"
    by (simp add: make_request_def connected_client_def example_world_fields answers_untitled_def)
  have loop: "recent_loop ?W connected_client (cutoff_timestamp ?W 24) (media_elements films_untitled) []
      = Inr [recent_info, untitled_info]"
    by (simp add: cutoff_example media_elements_untitled recent_item_recent recent_item_untitled)
  from get_recent_media_returned [OF ensure_connected_client req loop] show ?thesis
    by (simp add: recent_info_def untitled_info_def)
qed

lemma listing_untitled_later:
  "get_recent_media (an_hour_later (example_world answers_untitled)) connected_client ''1'' 24
     = ([recent_info], connected_client)"
proof -
  let ?W = "an_hour_later (example_world answers_untitled)"
  have req: "make_request ?W connected_client (''/library/sections/'' @ ''1'' @ ''/all'')
      = Inr films_untitled"
    by (simp add: make_request_def connected_client_def an_hour_later_fields example_world_fields
          answers_untitled_def)
  have loop: "recent_loop ?W connected_client (cutoff_timestamp ?W 24) (media_elements films_untitled) []
      = Inr [recent_info]"
    by (simp add: cutoff_later media_elements_untitled recent_item_recent recent_item_untitled)
  from get_recent_media_returned [OF ensure_connected_client req loop] show ?thesis by simp
qed

lemma match_body_untitled:
  "http_get w = answers_untitled \<Longrightarrow> http_put w = (\<lambda>endpoint params. Inr ()) \<Longrightarrow>
   match_body w connected_client (Some ''/library/metadata/4'')
     = Inr (True, ''Refreshed matched media: Recent'')
   \<and> match_body w connected_client (Some ''/library/metadata/2'')
     = Inr (True, ''Refreshed matched media: Unknown'')"
  by (simp add: match_body_def lookup_media_def is_guid_matched_def startswith_def fmt_def
        make_request_def xml_defs answers_untitled_def connected_client_def
        films_untitled_def film_recent_def film_untitled_def)

lemma match_untitled:
  "http_get w = answers_untitled \<Longrightarrow> http_put w = (\<lambda>endpoint params. Inr ()) \<Longrightarrow>
   match_with_agent w connected_client ''1'' (Some ''/library/metadata/4'') ''TheMovieDB''
     = ((True, ''Refreshed matched media: Recent''), connected_client)
   \<and> match_with_agent w connected_client ''1'' (Some ''/library/metadata/2'') ''TheMovieDB''
     = ((True, ''Refreshed matched media: Unknown''), connected_client)"
  using match_body_untitled [of w]
  by (simp add: mwa_returned [OF ensure_connected_client])

lemma process_recent:
  "http_get w = answers_untitled \<Longrightarrow> http_put w = (\<lambda>endpoint params. Inr ()) \<Longrightarrow>
   process_media w config_films
     \<lparr>client = connected_client,
      session = \<lparr>stored = [], flushed = [], pending = [], inactive = False\<rparr>,
      found = n, matched = 0, errors = 0\<rparr> recent_info
   = \<lparr>client = connected_client,
      session = \<lparr>stored = [], flushed = [], pending = [recent_row (now_us w)], inactive = False\<rparr>,
      found = n, matched = 1, errors = 0\<rparr>"
  using match_untitled [of w]
  by (simp add: process_media_def query_existing_def flush_def existing_item_def session_add_def
        config_films_def recent_info_def recent_row_def)

lemma process_untitled:
  "process_media (example_world answers_untitled) config_films
     \<lparr>client = connected_client,
      session = \<lparr>stored = [], flushed = [], pending = [recent_row 1700000000500000],
                 inactive = False\<rparr>,
      found = n, matched = 1, errors = 0\<rparr> untitled_info
   = \<lparr>client = connected_client,
      session = \<lparr>stored = [], flushed = [recent_row 1700000000500000], pending = [untitled_row],
                 inactive = False\<rparr>,
      found = n, matched = 2, errors = 0\<rparr>"
  using match_untitled [of "example_world answers_untitled"]
  by (simp add: process_media_def query_existing_def flush_def existing_item_def session_add_def
        not_null_def pair_of_def config_films_def untitled_info_def recent_row_def untitled_row_def
        example_world_fields)

lemma scan_configs_untitled:
  "scan_configs (example_world answers_untitled)
     \<lparr>client = connected_client,
      session = \<lparr>stored = [], flushed = [], pending = [], inactive = False\<rparr>,
      found = 0, matched = 0, errors = 0\<rparr>
     [config_films]
   = (None,
      \<lparr>client = connected_client,
       session = \<lparr>stored = [], flushed = [recent_row 1700000000500000], pending = [untitled_row],
                  inactive = False\<rparr>,
       found = 2, matched = 2, errors = 0\<rparr>)"
proof -
  have k: "library_key config_films = ''1''" by (simp add: config_films_def)
  have p: "process_media (example_world answers_untitled) config_films
     \<lparr>client = connected_client,
      session = \<lparr>stored = [], flushed = [], pending = [], inactive = False\<rparr>,
      found = 2, matched = 0, errors = 0\<rparr> recent_info
   = \<lparr>client = connected_client,
      session = \<lparr>stored = [], flushed = [], pending = [recent_row 1700000000500000],
                 inactive = False\<rparr>,
      found = 2, matched = 1, errors = 0\<rparr>"
    using process_recent [of "example_world answers_untitled" 2] by (simp add: example_world_fields)
  show ?thesis by (simp add: scan_library_def k listing_untitled p process_untitled)
qed

lemma commit_untitled:
  "commit \<lparr>stored = [], flushed = [recent_row clock], pending = [untitled_row], inactive = False\<rparr>
     = (Inl integrity_error, \<lparr>stored = [], flushed = [], pending = [], inactive = True\<rparr>)"
  by (simp add: commit_def flush_def not_null_def untitled_row_def)

lemma one_library_fields:
  "library_configs one_library = [config_films]" "media_items one_library = []"
  "scan_logs one_library = []"
  by (simp_all add: one_library_def)

lemma scan_start_fields:
  "library_configs (scan_start w d) = library_configs d" "media_items (scan_start w d) = media_items d"
  "scan_logs (scan_start w d) = scan_logs d @ [new_scan_log w]"
  by (simp_all add: scan_start_def)

lemma scan_untitled:
  assumes "library_configs d = [config_films]" "media_items d = []"
  shows "scan_libraries (example_world answers_untitled) d
     = (Some pending_rollback_error, scan_start (example_world answers_untitled) d)"
proof -
  let ?W = "example_world answers_untitled"
  have en: "filter enabled (library_configs d) = [config_films]"
    by (simp add: assms config_films_def)
  have b: "begin_session d = \<lparr>stored = [], flushed = [], pending = [], inactive = False\<rparr>"
    by (simp add: begin_session_def assms)
  have "\<exists>l. scan_try ?W d (new_scan_log ?W)
      = (Inl integrity_error, l, \<lparr>stored = [], flushed = [], pending = [], inactive = True\<rparr>)"
    by (simp add: scan_try_def connect_untitled example_world_fields en b scan_configs_untitled
          commit_untitled del: scan_configs.simps)
  then obtain l where t: "scan_try ?W d (new_scan_log ?W)
      = (Inl integrity_error, l, \<lparr>stored = [], flushed = [], pending = [], inactive = True\<rparr>)" ..
  show ?thesis by (simp add: scan_libraries_def t commit_inactive)
qed

lemma scan_configs_untitled_later:
  "scan_configs (an_hour_later (example_world answers_untitled))
     \<lparr>client = connected_client,
      session = \<lparr>stored = [], flushed = [], pending = [], inactive = False\<rparr>,
      found = 0, matched = 0, errors = 0\<rparr>
     [config_films]
   = (None,
      \<lparr>client = connected_client,
       session = \<lparr>stored = [], flushed = [], pending = [recent_row 1700003600500000],
                  inactive = False\<rparr>,
       found = 1, matched = 1, errors = 0\<rparr>)"
proof -
  have k: "library_key config_films = ''1''" by (simp add: config_films_def)
  have p: "process_media (an_hour_later (example_world answers_untitled)) config_films
     \<lparr>client = connected_client,
      session = \<lparr>stored = [], flushed = [], pending = [], inactive = False\<rparr>,
      found = 1, matched = 0, errors = 0\<rparr> recent_info
   = \<lparr>client = connected_client,
      session = \<lparr>stored = [], flushed = [], pending = [recent_row 1700003600500000],
                 inactive = False\<rparr>,
      found = 1, matched = 1, errors = 0\<rparr>"
    using process_recent [of "an_hour_later (example_world answers_untitled)" 1]
    by (simp add: an_hour_later_fields example_world_fields)
  show ?thesis by (simp add: scan_library_def k listing_untitled_later p)
qed

lemma commit_recent:
  "commit \<lparr>stored = [], flushed = [], pending = [recent_row clock], inactive = False\<rparr>
     = (Inr (), \<lparr>stored = [recent_row clock], flushed = [], pending = [], inactive = False\<rparr>)"
  by (simp add: commit_def flush_def not_null_def recent_row_def)

lemma scan_untitled_later:
  assumes "library_configs d = [config_films]" "media_items d = []"
  shows "scan_libraries (an_hour_later (example_world answers_untitled)) d
     = (None,
        d\<lparr>media_items := [recent_row 1700003600500000],
          scan_logs := scan_logs d @
            [\<lparr>scan_started_at = 1700003600500000, scan_completed_at = Some 1700003600500000,
              total_libraries = 1, total_media_found = 1, total_matched = 1, total_errors = 0,
              status = ''completed'', error_message = None\<rparr>]\<rparr>)"
proof -
  let ?W = "an_hour_later (example_world answers_untitled)"
  have en: "filter enabled (library_configs d) = [config_films]"
    by (simp add: assms config_films_def)
  have b: "begin_session d = \<lparr>stored = [], flushed = [], pending = [], inactive = False\<rparr>"
    by (simp add: begin_session_def assms)
  have t: "scan_try ?W d (new_scan_log ?W)
      = (Inr (),
         \<lparr>scan_started_at = 1700003600500000, scan_completed_at = Some 1700003600500000,
          total_libraries = 1, total_media_found = 1, total_matched = 1, total_errors = 0,
          status = ''completed'', error_message = None\<rparr>,
         \<lparr>stored = [recent_row 1700003600500000], flushed = [], pending = [], inactive = False\<rparr>)"
    by (simp add: scan_try_def connect_untitled_later an_hour_later_fields example_world_fields en b
          scan_configs_untitled_later commit_recent new_scan_log_def del: scan_configs.simps)
  show ?thesis by (simp add: scan_libraries_def t)
qed

subsection \<open>No token, and a connection refused\<close>

lemma connect_no_token:
  "connect no_token_world (PlexClient no_token_world) = (False, PlexClient no_token_world)"
  by (simp add: connect_def make_request_def PlexClient_def getenv_def no_token_world_def
        example_world_def)

lemma connect_refused:
  "connect refused_world (PlexClient refused_world) = (False, PlexClient refused_world)"
  by (simp add: connect_def make_request_def PlexClient_def getenv_def refused_world_def
        example_world_fields)

lemma connect_broken_database:
  "connect broken_database_world (PlexClient broken_database_world) = (True, connected_client)"
  by (simp add: client_defs xml_defs broken_database_world_def example_world_def
        answers_three_libraries_def not_found_def connected_client_def)

lemma failed_logs_agree:
  "failed_scan_log no_token_world text = failed_scan_log refused_world text"
  by (simp add: failed_scan_log_def new_scan_log_def no_token_world_def refused_world_def
        example_world_def)

section \<open>Properties of the scan\<close>

text \<open>
  C8. The record of a scan is not always brought to a terminal state. Library 1 of the
  example server holds, within the window, a film that has no title. The scan adds a row
  for it; the final commit sends the row, the table refuses it, because the title is
  declared not null, and the commit raises. The handler of the routine sets the record to
  failed and commits again, without a rollback: that commit raises in turn, the exception
  leaves the routine, and the record stays as the first commit wrote it, in status
  running and with no completion time. Nothing of the scan is stored. Where the body raises
  and no flush has failed, as when the configurations cannot be read, the handler does what
  it is written for: the record is failed, with the text of the exception and a completion
  time.
\<close>

theorem scan_record_left_running:
  "fst (get_recent_media (example_world answers_untitled) connected_client ''1'' 24)
     = [recent_info, untitled_info]
   \<and> mi_title untitled_info = None
   \<and> scan_libraries (example_world answers_untitled) one_library
       = (Some pending_rollback_error, scan_start (example_world answers_untitled) one_library)
   \<and> status (last_scan (snd (scan_libraries (example_world answers_untitled) one_library)))
       = ''running''
   \<and> scan_completed_at (last_scan (snd (scan_libraries (example_world answers_untitled) one_library)))
       = None
   \<and> media_items (snd (scan_libraries (example_world answers_untitled) one_library)) = []
   \<and> configs_error broken_database_world = Some (Exception ''database is locked'')
   \<and> scan_libraries broken_database_world three_libraries
       = (None, three_libraries
                  \<lparr>scan_logs := [failed_scan_log broken_database_world ''database is locked'']\<rparr>)
   \<and> scan_completed_at (failed_scan_log broken_database_world ''database is locked'')
       = Some 1700000000500000"
proof -
  have s: "scan_libraries (example_world answers_untitled) one_library
      = (Some pending_rollback_error, scan_start (example_world answers_untitled) one_library)"
    by (rule scan_untitled) (simp_all add: one_library_fields)
  have e: "configs_error broken_database_world = Some (Exception ''database is locked'')"
    by (simp add: broken_database_world_def)
  have b: "scan_libraries broken_database_world three_libraries
      = (None, three_libraries
                 \<lparr>scan_logs := [failed_scan_log broken_database_world ''database is locked'']\<rparr>)"
    by (subst scan_configs_error [OF connect_broken_database e]) (simp add: three_libraries_fields)
  have f: "scan_completed_at (failed_scan_log broken_database_world ''database is locked'')
      = Some 1700000000500000"
    by (simp add: failed_scan_log_def broken_database_world_def example_world_def)
  show ?thesis
    by (simp add: s e b f listing_untitled last_scan_def scan_start_fields one_library_fields)
       (simp add: untitled_info_def new_scan_log_def)
qed

text \<open>
  C7. A second scan against the same remote can add rows. The first scan of the library
  with the untitled film stores nothing, although the film with a title is in its window:
  the refusal of the one row rolls back the other. An hour later the remote answers as
  before, the untitled film has left the window, and the second scan stores the row of the
  film with a title, which the first scan had processed and lost.
\<close>

theorem second_scan_adds_row:
  "http_get (an_hour_later (example_world answers_untitled)) = http_get (example_world answers_untitled)
   \<and> http_put (an_hour_later (example_world answers_untitled)) = http_put (example_world answers_untitled)
   \<and> fst (get_recent_media (example_world answers_untitled) connected_client ''1'' 24)
       = [recent_info, untitled_info]
   \<and> media_items (snd (scan_libraries (example_world answers_untitled) one_library)) = []
   \<and> fst (scan_libraries (an_hour_later (example_world answers_untitled))
            (snd (scan_libraries (example_world answers_untitled) one_library))) = None
   \<and> media_items
        (snd (scan_libraries (an_hour_later (example_world answers_untitled))
               (snd (scan_libraries (example_world answers_untitled) one_library))))
       = [recent_row 1700003600500000]
   \<and> plex_key (recent_row 1700003600500000) = mi_key recent_info"
proof -
  let ?W = "example_world answers_untitled"
  have s: "scan_libraries ?W one_library = (Some pending_rollback_error, scan_start ?W one_library)"
    by (rule scan_untitled) (simp_all add: one_library_fields)
  have l: "media_items (snd (scan_libraries (an_hour_later ?W) (scan_start ?W one_library)))
             = [recent_row 1700003600500000]
           \<and> fst (scan_libraries (an_hour_later ?W) (scan_start ?W one_library)) = None"
    by (subst scan_untitled_later, simp add: scan_start_fields one_library_fields,
        simp add: scan_start_fields one_library_fields)+ simp
  show ?thesis
    by (simp add: s l listing_untitled an_hour_later_fields scan_start_fields one_library_fields)
       (simp add: recent_row_def recent_info_def)
qed

text \<open>
  C10. The counters of a repeat scan do not always count the window. Against the library
  with the untitled film, a scan and its repeat at the same instant, with the remote
  unchanged, both list two films; the repeat stores no row, and its record, which the
  failed commit leaves as created, reports none found. Where no row is refused the counters
  are as expected: the repeat of the scan over the three libraries stores no row and
  reports two found, none matched and no error.
\<close>

theorem repeat_scan_reports_none_found:
  "length (fst (get_recent_media (example_world answers_untitled) connected_client ''1'' 24)) = 2
   \<and> media_items
        (snd (scan_libraries (example_world answers_untitled)
               (snd (scan_libraries (example_world answers_untitled) one_library))))
       = media_items (snd (scan_libraries (example_world answers_untitled) one_library))
   \<and> total_media_found
        (last_scan (snd (scan_libraries (example_world answers_untitled)
                          (snd (scan_libraries (example_world answers_untitled) one_library))))) = 0
   \<and> status
        (last_scan (snd (scan_libraries (example_world answers_untitled)
                          (snd (scan_libraries (example_world answers_untitled) one_library)))))
       = ''running''
   \<and> total_media_found
        (last_scan (snd (scan_libraries (example_world answers_three_libraries)
                          (snd (scan_libraries (example_world answers_three_libraries) three_libraries)))))
       = 2
   \<and> media_items
        (snd (scan_libraries (example_world answers_three_libraries)
               (snd (scan_libraries (example_world answers_three_libraries) three_libraries))))
       = media_items (snd (scan_libraries (example_world answers_three_libraries) three_libraries))"
proof -
  let ?W = "example_world answers_untitled"
  have s: "scan_libraries ?W one_library = (Some pending_rollback_error, scan_start ?W one_library)"
    by (rule scan_untitled) (simp_all add: one_library_fields)
  have r: "scan_libraries ?W (scan_start ?W one_library)
      = (Some pending_rollback_error, scan_start ?W (scan_start ?W one_library))"
    by (rule scan_untitled) (simp_all add: scan_start_fields one_library_fields)
  have a: "scan_libraries (example_world answers_three_libraries)
             (three_libraries\<lparr>media_items := [film_row, song_row],
                              scan_logs := [three_libraries_log 2 2]\<rparr>)
      = (None, three_libraries\<lparr>media_items := [film_row, song_row],
                  scan_logs := [three_libraries_log 2 2, three_libraries_log 2 0]\<rparr>)"
    by (subst scan_three_libraries_again) (simp_all add: enabled_three_libraries)
  show ?thesis
    by (simp add: s r listing_untitled scan_three_libraries a last_scan_def
          scan_start_fields one_library_fields)
       (simp add: new_scan_log_def three_libraries_log_def)
qed

text \<open>
  C3. A library whose items cannot be fetched is not counted as an error. Of the three
  libraries of the example server the second answers the request for its items with a
  connection error. The scan goes on to the third library, whose song it stores after the
  film of the first, and its record is completed; but the method that lists the recent
  items has caught the error and answered with the empty list, so the scan has seen no
  failure, and the record counts no error.
\<close>

theorem second_library_fails_uncounted:
  "filter enabled (library_configs three_libraries) = [config_films, config_shows, config_music]
   \<and> http_get (example_world answers_three_libraries)
        (''/library/sections/'' @ library_key config_shows @ ''/all'') = Inl connection_aborted
   \<and> scan_libraries (example_world answers_three_libraries) three_libraries
       = (None, three_libraries\<lparr>media_items := [film_row, song_row],
                                scan_logs := [three_libraries_log 2 2]\<rparr>)
   \<and> library_config_id song_row = lc_id config_music
   \<and> status (last_scan (snd (scan_libraries (example_world answers_three_libraries) three_libraries)))
       = ''completed''
   \<and> total_errors (last_scan (snd (scan_libraries (example_world answers_three_libraries) three_libraries)))
       = 0"
  by (simp add: enabled_three_libraries scan_three_libraries last_scan_def example_world_fields)
     (simp add: answers_three_libraries_def config_shows_def config_music_def song_row_def
        three_libraries_log_def)

text \<open>
  C4, as the code has it. Without a token, missing or empty, the client does not connect:
  the scan returns, and leaves the database as it was but for its record, failed with the
  text of a failed connection. A connection error at the handshake leaves exactly the
  same: the record of the scan does not tell the one from the other.
\<close>

theorem missing_token_is_connect_failure:
  "(getenv w ''PLEX_TOKEN'' '''' = [] \<longrightarrow>
      scan_libraries w d =
        (None, d\<lparr>scan_logs := scan_logs d @ [failed_scan_log w ''Failed to connect to Plex server'']\<rparr>))
   \<and> (\<forall>e. getenv w ''PLEX_TOKEN'' '''' \<noteq> [] \<and> http_get w ''/'' = Inl e \<longrightarrow>
      scan_libraries w d =
        (None, d\<lparr>scan_logs := scan_logs d @ [failed_scan_log w ''Failed to connect to Plex server'']\<rparr>))"
proof (intro conjI impI allI)
  assume "getenv w ''PLEX_TOKEN'' '''' = []"
  then have "connect w (PlexClient w) = (False, PlexClient w)"
    by (simp add: connect_def make_request_def PlexClient_def)
  then show "scan_libraries w d =
        (None, d\<lparr>scan_logs := scan_logs d @ [failed_scan_log w ''Failed to connect to Plex server'']\<rparr>)"
    by (rule scan_not_connected)
next
  fix e
  assume "getenv w ''PLEX_TOKEN'' '''' \<noteq> [] \<and> http_get w ''/'' = Inl e"
  then have "connect w (PlexClient w) = (False, PlexClient w)"
    by (simp add: connect_def make_request_def PlexClient_def)
  then show "scan_libraries w d =
        (None, d\<lparr>scan_logs := scan_logs d @ [failed_scan_log w ''Failed to connect to Plex server'']\<rparr>)"
    by (rule scan_not_connected)
qed

theorem missing_token_is_connect_failure_witness:
  "getenv no_token_world ''PLEX_TOKEN'' '''' = []
   \<and> scan_libraries no_token_world three_libraries =
        (None, three_libraries\<lparr>scan_logs := scan_logs three_libraries @
          [failed_scan_log no_token_world ''Failed to connect to Plex server'']\<rparr>)
   \<and> getenv refused_world ''PLEX_TOKEN'' '''' \<noteq> []
   \<and> http_get refused_world ''/'' = Inl (RequestException ''Connection refused'')
   \<and> scan_libraries refused_world three_libraries =
        (None, three_libraries\<lparr>scan_logs := scan_logs three_libraries @
          [failed_scan_log refused_world ''Failed to connect to Plex server'']\<rparr>)"
proof -
  have env: "getenv no_token_world ''PLEX_TOKEN'' '''' = []"
    "getenv refused_world ''PLEX_TOKEN'' '''' \<noteq> []"
    "http_get refused_world ''/'' = Inl (RequestException ''Connection refused'')"
    by (simp_all add: getenv_def no_token_world_def refused_world_def example_world_def)
  from missing_token_is_connect_failure [of no_token_world three_libraries]
       missing_token_is_connect_failure [of refused_world three_libraries] env
  show ?thesis by blast
qed

text \<open>
  C4 as stated fails: a scan in a world without a token, whose server would answer, and a
  scan in a world with a token whose server refuses the connection leave the same
  database, with the same failed record.
\<close>

theorem missing_token_counterexample:
  "getenv no_token_world ''PLEX_TOKEN'' '''' = []
   \<and> getenv refused_world ''PLEX_TOKEN'' '''' = ''secret''
   \<and> http_get no_token_world ''/'' = Inr (Element ''MediaContainer'' [(''friendlyName'', ''home'')] [])
   \<and> http_get refused_world ''/'' = Inl (RequestException ''Connection refused'')
   \<and> scan_libraries no_token_world three_libraries = scan_libraries refused_world three_libraries
   \<and> status (last_scan (snd (scan_libraries no_token_world three_libraries))) = ''failed''
   \<and> error_message (last_scan (snd (scan_libraries no_token_world three_libraries)))
       = Some ''Failed to connect to Plex server''"
proof -
  have a: "scan_libraries no_token_world three_libraries =
      (None, three_libraries\<lparr>scan_logs := scan_logs three_libraries @
        [failed_scan_log refused_world ''Failed to connect to Plex server'']\<rparr>)"
    by (subst scan_not_connected [OF connect_no_token]) (simp add: failed_logs_agree)
  have b: "scan_libraries refused_world three_libraries =
      (None, three_libraries\<lparr>scan_logs := scan_logs three_libraries @
        [failed_scan_log refused_world ''Failed to connect to Plex server'']\<rparr>)"
    by (rule scan_not_connected [OF connect_refused])
  have env: "getenv no_token_world ''PLEX_TOKEN'' '''' = []"
    "getenv refused_world ''PLEX_TOKEN'' '''' = ''secret''"
    "http_get no_token_world ''/'' = Inr (Element ''MediaContainer'' [(''friendlyName'', ''home'')] [])"
    "http_get refused_world ''/'' = Inl (RequestException ''Connection refused'')"
    by (simp_all add: getenv_def no_token_world_def refused_world_def example_world_def
          answers_three_libraries_def)
  show ?thesis
    by (simp add: env a b last_scan_def) (simp add: failed_scan_log_def)
qed




end
